theory Spec2Isabelle
  imports Main "HOL-Library.AList"
begin

section \<open>Data model (src/circles/entities/circle.entity.ts)\<close>

text \<open>
  The three string-literal union types of the entities are datatypes; an optional or
  nullable field (\<^verbatim>\<open>field?: T | null\<close>) is an \<open>option\<close>, with \<open>None\<close> standing for both
  an absent and a null field. Firestore timestamps are milliseconds since the epoch
  (\<open>int\<close>), JavaScript numbers that count things are \<open>int\<close>.
\<close>

datatype circle_status = Scheduled | Live | Ended

datatype role = Host | Speaker | Listener

datatype member_status = Active | Left | Disconnected

datatype end_reason = HostEnded | HostDisconnected | Timeout

datatype privacy = Public | Private | Secret

record circle =
  c_id :: string
  c_title :: string
  c_description :: "string option"
  c_category :: string
  c_coverUrl :: "string option"
  c_createdAt :: int
  c_hostUid :: string
  c_maxSpeakers :: int
  c_privacy :: privacy
  c_startAt :: int
  c_status :: circle_status
  c_participantCount :: "int option"
  c_endedAt :: "int option"
  c_endReason :: "end_reason option"
  c_hostDisconnectedAt :: "int option"
  c_isReplay :: bool
  c_totalSpeakTime :: "int option"
  c_handRaiseCount :: "int option"
  c_roleChangeCount :: "int option"

record member =
  m_role :: role
  m_isMuted :: bool
  m_joinedAt :: int
  m_lastSpokeAt :: "int option"
  m_status :: "member_status option"
  m_leftAt :: "int option"
  m_disconnectedAt :: "int option"
  m_rejoinCount :: "int option"
  m_lastRejoinAt :: "int option"
  m_totalSpeakTime :: "int option"
  m_isHandRaised :: "bool option"
  m_handRaiseCount :: "int option"
  m_roleChangeCount :: "int option"
  m_lastRoleChangeAt :: "int option"
  m_isMutedByHost :: "bool option"
  m_muteReason :: "string option"
  m_kickCount :: "int option"
  m_lastKickAt :: "int option"
  m_kickReason :: "string option"

record handRaise =
  raisedAt :: int

record userData =
  fullName :: "string option"

text \<open>
  \<^verbatim>\<open>throw new Error(msg)\<close> and \<^verbatim>\<open>throw new BadRequestException(msg)\<close>, with the message
  the source builds. Every operation returns its result or error together with the store
  it leaves behind: the writes are not transactional, so a failure after a write keeps
  the write. A caller id is a string, and \<^verbatim>\<open>!userId\<close> holds for the empty one.
\<close>

datatype error = Error string | BadRequestException string

section \<open>The document store\<close>

text \<open>
  The Firestore collections the services touch. A collection is an association list from
  document path to document, read with \<open>map_of\<close> and written with \<open>AList.update\<close>
  (\<^verbatim>\<open>set\<close>) and \<open>AList.delete\<close> (\<^verbatim>\<open>delete\<close>); the sub-collections
  \<^verbatim>\<open>circles/{id}/members/{uid}\<close> and \<^verbatim>\<open>circles/{id}/handRaises/{uid}\<close> are keyed by the pair
  (circle id, user id). \<open>timers\<close> holds the callbacks armed with \<^verbatim>\<open>setTimeout\<close> by
  \<^verbatim>\<open>handleHostDisconnection\<close>: fire time, circle id, host id.
\<close>

record state =
  circles :: "(string \<times> circle) list"
  members :: "((string \<times> string) \<times> member) list"
  handRaises :: "((string \<times> string) \<times> handRaise) list"
  users :: "(string \<times> userData) list"
  timers :: "(int \<times> string \<times> string) list"

text \<open>
  \<^verbatim>\<open>ref.update(fields)\<close> fails when the document does not exist; \<^verbatim>\<open>ref.set\<close> creates or
  overwrites it; \<^verbatim>\<open>ref.delete()\<close> of a missing document succeeds.
\<close>

definition updateCircleDoc :: "string \<Rightarrow> (circle \<Rightarrow> circle) \<Rightarrow> state \<Rightarrow> error + state" where
  "updateCircleDoc cid f s =
     (case map_of (circles s) cid of
        None \<Rightarrow> Inl (Error ''NOT_FOUND: No document to update'')
      | Some c \<Rightarrow> Inr (s\<lparr>circles := AList.update cid (f c) (circles s)\<rparr>))"

definition updateMemberDoc :: "string \<times> string \<Rightarrow> (member \<Rightarrow> member) \<Rightarrow> state \<Rightarrow> error + state" where
  "updateMemberDoc k f s =
     (case map_of (members s) k of
        None \<Rightarrow> Inl (Error ''NOT_FOUND: No document to update'')
      | Some m \<Rightarrow> Inr (s\<lparr>members := AList.update k (f m) (members s)\<rparr>))"

text \<open>\<^verbatim>\<open>admin.firestore.FieldValue.increment(d)\<close>: a missing or null field counts as 0.\<close>

definition increment :: "int \<Rightarrow> int option \<Rightarrow> int option" where
  "increment d v = Some ((case v of None \<Rightarrow> 0 | Some n \<Rightarrow> n) + d)"

definition incrementParticipantCountField :: "string \<Rightarrow> int \<Rightarrow> state \<Rightarrow> error + state" where
  "incrementParticipantCountField cid d s =
     updateCircleDoc cid (\<lambda>c. c\<lparr>c_participantCount := increment d (c_participantCount c)\<rparr>) s"

section \<open>Token issuer (LivekitService.mintToken)\<close>

text \<open>
  The environment holds the two LiveKit credentials. A token is represented by what
  \<^verbatim>\<open>mintToken\<close> puts into it: identity, display name and the grants of the role; signing
  is left to the library.
\<close>

record env =
  LIVEKIT_API_KEY :: "string option"
  LIVEKIT_API_SECRET :: "string option"

record token =
  identity :: string
  name :: string
  room :: string
  roomJoin :: bool
  canPublish :: bool
  canSubscribe :: bool
  canPublishData :: bool
  roomAdmin :: bool
  roomCreate :: bool

text \<open>\<^verbatim>\<open>!x\<close> on an optional string: undefined and the empty string are falsy.\<close>

definition falsy :: "string option \<Rightarrow> bool" where
  "falsy x = (case x of None \<Rightarrow> True | Some v \<Rightarrow> v = [])"

definition mintToken :: "env \<Rightarrow> string \<Rightarrow> string \<Rightarrow> role \<Rightarrow> string option \<Rightarrow> error + token" where
  "mintToken e userId rm rl fullNm =
     (if falsy (LIVEKIT_API_KEY e) \<or> falsy (LIVEKIT_API_SECRET e) then
        Inl (Error ''Token generation failed: LiveKit API credentials not configured'')
      else if userId = [] \<or> rm = [] then
        Inl (Error ''Token generation failed: Invalid parameters: userId, room, and role are required'')
      else
        Inr \<lparr>identity = userId,
             name = (if falsy fullNm then userId else the fullNm),
             room = rm,
             roomJoin = True,
             canPublish = (rl = Host \<or> rl = Speaker),
             canSubscribe = True,
             canPublishData = (rl = Host \<or> rl = Speaker \<or> rl = Listener),
             roomAdmin = (rl = Host),
             roomCreate = (rl = Host)\<rparr>)"

text \<open>\<^verbatim>\<open>FirebaseService.getUserData(userId)?.fullName\<close>.\<close>

definition getFullName :: "state \<Rightarrow> string \<Rightarrow> string option" where
  "getFullName s userId =
     (case map_of (users s) userId of None \<Rightarrow> None | Some u \<Rightarrow> fullName u)"

section \<open>CirclesService\<close>

subsection \<open>Status transitions\<close>

definition validStatusTransitions :: "circle_status \<Rightarrow> circle_status list" where
  "validStatusTransitions st =
     (case st of Scheduled \<Rightarrow> [Live, Ended] | Live \<Rightarrow> [Ended] | Ended \<Rightarrow> [])"

definition isValidStatusTransition :: "circle_status \<Rightarrow> circle_status \<Rightarrow> bool" where
  "isValidStatusTransition currentStatus newStatus =
     (newStatus \<in> set (validStatusTransitions currentStatus))"

text \<open>The string a status is interpolated as in an error message.\<close>

definition status_name :: "circle_status \<Rightarrow> string" where
  "status_name st =
     (case st of Scheduled \<Rightarrow> ''scheduled'' | Live \<Rightarrow> ''live'' | Ended \<Rightarrow> ''ended'')"

text \<open>
  \<^verbatim>\<open>updateCircleStatus(id, newStatus, userId)\<close>; the result is the returned object
  \<^verbatim>\<open>{ id, status, endedAt? }\<close>.
\<close>

definition updateCircleStatus ::
  "int \<Rightarrow> string \<Rightarrow> circle_status \<Rightarrow> string \<Rightarrow> state
     \<Rightarrow> (error + string \<times> circle_status \<times> int option) \<times> state" where
  "updateCircleStatus now cid newStatus userId s =
     (if userId = [] then (Inl (Error ''User not authenticated''), s)
      else case map_of (circles s) cid of
        None \<Rightarrow> (Inl (Error ''Circle not found''), s)
      | Some c \<Rightarrow>
          if c_hostUid c \<noteq> userId then (Inl (Error ''Only host can update circle status''), s)
          else if \<not> isValidStatusTransition (c_status c) newStatus then
            (Inl (Error (''Invalid status transition from '' @ status_name (c_status c)
                          @ '' to '' @ status_name newStatus)), s)
          else
            let endedAt = (if newStatus = Ended then Some now else None) in
            (case updateCircleDoc cid
                    (\<lambda>d. if newStatus = Ended
                         then d\<lparr>c_status := newStatus, c_endedAt := Some now\<rparr>
                         else d\<lparr>c_status := newStatus\<rparr>) s of
               Inl e \<Rightarrow> (Inl e, s)
             | Inr s' \<Rightarrow> (Inr (cid, newStatus, endedAt), s')))"

subsection \<open>Create\<close>

text \<open>
  \<^verbatim>\<open>CreateCircleDto\<close>; \<open>dto_startAt\<close> is the instant the validated ISO date string
  denotes.
\<close>

record createCircleDto =
  dto_title :: string
  dto_description :: "string option"
  dto_category :: string
  dto_privacy :: privacy
  dto_coverUrl :: "string option"
  dto_startAt :: "int option"
  dto_maxSpeakers :: "int option"
  dto_isReplay :: "bool option"

text \<open>
  The query \<^verbatim>\<open>where('hostUid', '==', userId).where('createdAt', '>=', startOfDayTs)\<close>.
\<close>

definition circlesCreatedSince :: "string \<Rightarrow> int \<Rightarrow> state \<Rightarrow> (string \<times> circle) list" where
  "circlesCreatedSince userId startOfDay s =
     filter (\<lambda>(k, c). c_hostUid c = userId \<and> startOfDay \<le> c_createdAt c) (circles s)"

text \<open>
  \<^verbatim>\<open>createCircle(dto, userId)\<close>. \<open>now\<close> is the clock, \<open>startOfDay\<close> the instant
  \<^verbatim>\<open>new Date().setHours(0, 0, 0, 0)\<close> (local midnight of the current day) and \<open>circleId\<close>
  the identifier \<^verbatim>\<open>db.collection('circles').doc()\<close> generates. The writes are not
  transactional: when minting the token fails, the circle and the host member are
  already stored.
\<close>

definition createCircle ::
  "env \<Rightarrow> int \<Rightarrow> int \<Rightarrow> string \<Rightarrow> createCircleDto \<Rightarrow> string \<Rightarrow> state
     \<Rightarrow> (error + string \<times> token \<times> circle) \<times> state" where
  "createCircle e now startOfDay circleId dto userId s =
     (if userId = [] then (Inl (Error ''User not authenticated''), s)
      else if 5 \<le> length (circlesCreatedSince userId startOfDay s) then
        (Inl (BadRequestException
                ''Daily limit reached: You can only create 5 circles per day.''), s)
      else
        let startTime = (case dto_startAt dto of Some t \<Rightarrow> t | None \<Rightarrow> now);
            initialStatus =
              (case dto_startAt dto of
                 Some t \<Rightarrow> if now < t then Scheduled else Live
               | None \<Rightarrow> Live);
            circleData =
              \<lparr>c_id = circleId,
               c_title = dto_title dto,
               c_description =
                 (if falsy (dto_description dto) then None else dto_description dto),
               c_category = dto_category dto,
               c_coverUrl = (if falsy (dto_coverUrl dto) then None else dto_coverUrl dto),
               c_createdAt = now,
               c_hostUid = userId,
               c_maxSpeakers = (case dto_maxSpeakers dto of None \<Rightarrow> 8 | Some n \<Rightarrow> n),
               c_privacy = dto_privacy dto,
               c_startAt = startTime,
               c_status = initialStatus,
               c_participantCount = Some 1,
               c_endedAt = None,
               c_endReason = None,
               c_hostDisconnectedAt = None,
               c_isReplay = (case dto_isReplay dto of None \<Rightarrow> False | Some b \<Rightarrow> b),
               c_totalSpeakTime = Some 0,
               c_handRaiseCount = Some 0,
               c_roleChangeCount = Some 0\<rparr>;
            s1 = s\<lparr>circles := AList.update circleId circleData (circles s)\<rparr>;
            memberData =
              \<lparr>m_role = Host,
               m_isMuted = False,
               m_joinedAt = now,
               m_lastSpokeAt = None,
               m_status = Some Active,
               m_leftAt = None,
               m_disconnectedAt = None,
               m_rejoinCount = Some 0,
               m_lastRejoinAt = None,
               m_totalSpeakTime = Some 0,
               m_isHandRaised = None,
               m_handRaiseCount = Some 0,
               m_roleChangeCount = Some 0,
               m_lastRoleChangeAt = None,
               m_isMutedByHost = None,
               m_muteReason = None,
               m_kickCount = Some 0,
               m_lastKickAt = None,
               m_kickReason = None\<rparr>;
            s2 = s1\<lparr>members := AList.update (circleId, userId) memberData (members s1)\<rparr>
        in (case mintToken e userId circleId Host (getFullName s2 userId) of
              Inl err \<Rightarrow> (Inl err, s2)
            | Inr tk \<Rightarrow> (Inr (circleId, tk, circleData), s2)))"

subsection \<open>Hard delete\<close>

text \<open>
  The documents of a sub-collection of circle \<open>cid\<close>, and a committed batch of deletes.
\<close>

definition subDocs :: "string \<Rightarrow> ((string \<times> string) \<times> 'v) list \<Rightarrow> (string \<times> string) list" where
  "subDocs cid xs = map fst (filter (\<lambda>kv. fst (fst kv) = cid) xs)"

definition batchDelete :: "'k list \<Rightarrow> ('k \<times> 'v) list \<Rightarrow> ('k \<times> 'v) list" where
  "batchDelete ks xs = fold AList.delete ks xs"

definition deleteCircle :: "string \<Rightarrow> string \<Rightarrow> state \<Rightarrow> (error + string \<times> bool) \<times> state" where
  "deleteCircle cid userId s =
     (if userId = [] then (Inl (Error ''User not authenticated''), s)
      else case map_of (circles s) cid of
        None \<Rightarrow> (Inl (Error ''Circle not found''), s)
      | Some c \<Rightarrow>
          if c_hostUid c \<noteq> userId then (Inl (Error ''Only host can delete circle''), s)
          else if c_status c \<noteq> Scheduled then
            (Inl (Error ''Only scheduled circles can be deleted''), s)
          else
            let s1 = s\<lparr>circles := AList.delete cid (circles s)\<rparr>;
                s2 = s1\<lparr>members := batchDelete (subDocs cid (members s1)) (members s1)\<rparr>;
                s3 = s2\<lparr>handRaises :=
                          batchDelete (subDocs cid (handRaises s2)) (handRaises s2)\<rparr>
            in (Inr (cid, True), s3))"

subsection \<open>Host disconnection\<close>

definition endCircleDueToHostDisconnection :: "int \<Rightarrow> string \<Rightarrow> state \<Rightarrow> error + state" where
  "endCircleDueToHostDisconnection now circleId s =
     updateCircleDoc circleId
       (\<lambda>c. c\<lparr>c_status := Ended, c_endedAt := Some now, c_endReason := Some HostDisconnected\<rparr>)
       s"

text \<open>
  The callback \<^verbatim>\<open>handleHostDisconnection\<close> passes to \<^verbatim>\<open>setTimeout\<close>, run at time \<open>now\<close>:
  it reads the host's member record again; an error inside it is caught and logged.
\<close>

definition hostDisconnectionTimeout :: "int \<Rightarrow> string \<Rightarrow> string \<Rightarrow> state \<Rightarrow> state" where
  "hostDisconnectionTimeout now circleId hostId s =
     (case map_of (members s) (circleId, hostId) of
        None \<Rightarrow> s
      | Some m \<Rightarrow>
          if m_status m = Some Disconnected then
            (case endCircleDueToHostDisconnection now circleId s of
               Inl e \<Rightarrow> s
             | Inr s' \<Rightarrow> s')
          else s)"

definition handleHostDisconnection ::
  "int \<Rightarrow> string \<Rightarrow> string \<Rightarrow> state \<Rightarrow> (error + unit) \<times> state" where
  "handleHostDisconnection now circleId hostId s =
     (case updateMemberDoc (circleId, hostId)
             (\<lambda>m. m\<lparr>m_status := Some Disconnected, m_disconnectedAt := Some now\<rparr>) s of
        Inl e \<Rightarrow> (Inl e, s)
      | Inr s1 \<Rightarrow>
          (case updateCircleDoc circleId (\<lambda>c. c\<lparr>c_hostDisconnectedAt := Some now\<rparr>) s1 of
             Inl e \<Rightarrow> (Inl e, s1)
           | Inr s2 \<Rightarrow>
               (Inr (), s2\<lparr>timers := timers s2 @ [(now + 5 * 60 * 1000, circleId, hostId)]\<rparr>)))"

text \<open>The event loop at time \<open>now\<close>: every armed callback that is due runs once.\<close>

fun runTimers :: "int \<Rightarrow> (int \<times> string \<times> string) list \<Rightarrow> state \<Rightarrow> state" where
  "runTimers now [] s = s"
| "runTimers now ((t, circleId, hostId) # ts) s =
     runTimers now ts (if t \<le> now then hostDisconnectionTimeout now circleId hostId s else s)"

definition fireTimers :: "int \<Rightarrow> state \<Rightarrow> state" where
  "fireTimers now s =
     runTimers now (timers s) (s\<lparr>timers := filter (\<lambda>(t, c, h). now < t) (timers s)\<rparr>)"

subsection \<open>Join\<close>

text \<open>
  \<^verbatim>\<open>joinCircle(id, userId, joinDto?)\<close>; \<open>joinRole\<close> is \<^verbatim>\<open>joinDto?.role\<close>, which the
  validator of \<^verbatim>\<open>JoinCircleDto\<close> restricts to \<^verbatim>\<open>'listener'\<close>; the service stores whatever
  role it is handed. The result is \<^verbatim>\<open>{ webrtcToken, role }\<close>.
\<close>

definition withRole :: "role \<Rightarrow> error + token \<Rightarrow> error + token \<times> role" where
  "withRole r x = (case x of Inl e \<Rightarrow> Inl e | Inr tk \<Rightarrow> Inr (tk, r))"

definition joinCircle ::
  "env \<Rightarrow> int \<Rightarrow> string \<Rightarrow> string \<Rightarrow> role option \<Rightarrow> state
     \<Rightarrow> (error + token \<times> role) \<times> state" where
  "joinCircle e now cid userId joinRole s =
     (if userId = [] then (Inl (Error ''User not authenticated''), s)
      else case map_of (circles s) cid of
        None \<Rightarrow> (Inl (Error ''Circle not found''), s)
      | Some c \<Rightarrow>
          if c_status c \<notin> set [Scheduled, Live] then
            (Inl (Error (''Cannot join circle with status: '' @ status_name (c_status c))), s)
          else
            let requestedRole = (case joinRole of None \<Rightarrow> Listener | Some r \<Rightarrow> r);
                existingMember = map_of (members s) (cid, userId)
            in
            if c_hostUid c = userId \<and> c_status c = Scheduled then
              (case existingMember of
                 Some m \<Rightarrow>
                   (withRole Host (mintToken e userId cid Host (getFullName s userId)), s)
               | None \<Rightarrow>
                   let memberData =
                         \<lparr>m_role = Host,
                          m_isMuted = False,
                          m_joinedAt = now,
                          m_lastSpokeAt = None,
                          m_status = Some Active,
                          m_leftAt = None,
                          m_disconnectedAt = None,
                          m_rejoinCount = None,
                          m_lastRejoinAt = None,
                          m_totalSpeakTime = Some 0,
                          m_isHandRaised = None,
                          m_handRaiseCount = Some 0,
                          m_roleChangeCount = Some 0,
                          m_lastRoleChangeAt = None,
                          m_isMutedByHost = None,
                          m_muteReason = None,
                          m_kickCount = Some 0,
                          m_lastKickAt = None,
                          m_kickReason = None\<rparr>;
                       s1 = s\<lparr>members := AList.update (cid, userId) memberData (members s)\<rparr>
                   in (case incrementParticipantCountField cid 1 s1 of
                         Inl err \<Rightarrow> (Inl err, s1)
                       | Inr s2 \<Rightarrow>
                           (withRole Host
                              (mintToken e userId cid Host (getFullName s2 userId)), s2)))
            else
              (case existingMember of
                 Some m \<Rightarrow>
                   if m_status m = Some Left then
                     (let currentRejoinCount =
                            (case m_rejoinCount m of None \<Rightarrow> 0 | Some n \<Rightarrow> n)
                      in case updateMemberDoc (cid, userId)
                                (\<lambda>d. d\<lparr>m_status := Some Active,
                                        m_leftAt := None,
                                        m_rejoinCount := Some (currentRejoinCount + 1),
                                        m_lastRejoinAt := Some now,
                                        m_joinedAt := now\<rparr>) s of
                           Inl err \<Rightarrow> (Inl err, s)
                         | Inr s1 \<Rightarrow>
                             (case incrementParticipantCountField cid 1 s1 of
                                Inl err \<Rightarrow> (Inl err, s1)
                              | Inr s2 \<Rightarrow>
                                  (withRole (m_role m)
                                     (mintToken e userId cid (m_role m)
                                        (getFullName s2 userId)), s2)))
                   else
                     (withRole (m_role m)
                        (mintToken e userId cid (m_role m) (getFullName s userId)), s)
               | None \<Rightarrow>
                   let memberData =
                         \<lparr>m_role = requestedRole,
                          m_isMuted = (requestedRole = Listener),
                          m_joinedAt = now,
                          m_lastSpokeAt = None,
                          m_status = Some Active,
                          m_leftAt = None,
                          m_disconnectedAt = None,
                          m_rejoinCount = Some 0,
                          m_lastRejoinAt = None,
                          m_totalSpeakTime = Some 0,
                          m_isHandRaised = Some False,
                          m_handRaiseCount = Some 0,
                          m_roleChangeCount = Some 0,
                          m_lastRoleChangeAt = None,
                          m_isMutedByHost = None,
                          m_muteReason = None,
                          m_kickCount = Some 0,
                          m_lastKickAt = None,
                          m_kickReason = None\<rparr>;
                       s1 = s\<lparr>members := AList.update (cid, userId) memberData (members s)\<rparr>
                   in (case incrementParticipantCountField cid 1 s1 of
                         Inl err \<Rightarrow> (Inl err, s1)
                       | Inr s2 \<Rightarrow>
                           (withRole requestedRole
                              (mintToken e userId cid requestedRole
                                 (getFullName s2 userId)), s2))))"

subsection \<open>Promote, demote and leave\<close>

text \<open>\<^verbatim>\<open>promoteMember(circleId, requesterId, { targetUserId, newRole })\<close>.\<close>

definition promoteMember ::
  "env \<Rightarrow> int \<Rightarrow> string \<Rightarrow> string \<Rightarrow> string \<Rightarrow> role \<Rightarrow> state
     \<Rightarrow> (error + token \<times> role) \<times> state" where
  "promoteMember e now circleId requesterId targetUserId newRole s =
     (case map_of (circles s) circleId of
        None \<Rightarrow> (Inl (Error ''Circle not found''), s)
      | Some c \<Rightarrow>
          (case map_of (members s) (circleId, targetUserId) of
             None \<Rightarrow> (Inl (Error ''Target member not found''), s)
           | Some m \<Rightarrow>
               if c_hostUid c \<noteq> requesterId then
                 (Inl (Error ''forbidden: only host can promote/demote''), s)
               else
                 (case updateMemberDoc (circleId, targetUserId)
                         (\<lambda>d. d\<lparr>m_role := newRole,
                                 m_lastRoleChangeAt := Some now,
                                 m_roleChangeCount := increment 1 (m_roleChangeCount d)\<rparr>) s of
                    Inl err \<Rightarrow> (Inl err, s)
                  | Inr s1 \<Rightarrow>
                      (withRole newRole
                         (mintToken e targetUserId circleId newRole
                            (getFullName s1 targetUserId)), s1))))"

definition leaveCircle :: "int \<Rightarrow> string \<Rightarrow> string \<Rightarrow> state \<Rightarrow> (error + string) \<times> state" where
  "leaveCircle now cid userId s =
     (if userId = [] then (Inl (Error ''User not authenticated''), s)
      else case map_of (circles s) cid of
        None \<Rightarrow> (Inl (Error ''Circle not found''), s)
      | Some c \<Rightarrow>
          if c_hostUid c = userId then
            (Inl (Error ''Host cannot leave circle. Use end circle instead.''), s)
          else
            (case updateMemberDoc (cid, userId)
                    (\<lambda>d. d\<lparr>m_leftAt := Some now, m_status := Some Left\<rparr>) s of
               Inl err \<Rightarrow> (Inl err, s)
             | Inr s1 \<Rightarrow>
                 let s2 = s1\<lparr>handRaises := AList.delete (cid, userId) (handRaises s1)\<rparr>
                 in (case incrementParticipantCountField cid (- 1) s2 of
                       Inl err \<Rightarrow> (Inl err, s2)
                     | Inr s3 \<Rightarrow> (Inr cid, s3))))"

subsection \<open>Detail query\<close>

text \<open>
  The filter of \<^verbatim>\<open>getCircleDetails\<close>: a member is listed when its status is
  \<^verbatim>\<open>'active'\<close>, null or undefined.
\<close>

definition listedAsActive :: "member \<Rightarrow> bool" where
  "listedAsActive m = (m_status m = Some Active \<or> m_status m = None)"

definition getCircleDetailsMembers :: "string \<Rightarrow> state \<Rightarrow> (string \<times> member) list" where
  "getCircleDetailsMembers cid s =
     filter (\<lambda>(uid, m). listedAsActive m)
       (map (\<lambda>(k, m). (snd k, m)) (filter (\<lambda>kv. fst (fst kv) = cid) (members s)))"

section \<open>WebhookService\<close>

text \<open>
  The fields of a \<^verbatim>\<open>WebhookEvent\<close> the handlers read: \<^verbatim>\<open>event.event\<close>,
  \<^verbatim>\<open>event.room?.name\<close>, \<^verbatim>\<open>event.participant?.identity\<close> and \<^verbatim>\<open>event.track?.type\<close>.
\<close>

datatype trackType = AUDIO | VIDEO | DATA

record webhookEvent =
  event :: string
  roomName :: "string option"
  participantIdentity :: "string option"
  track :: "trackType option"

definition incrementParticipantCount ::
  "string \<Rightarrow> string \<Rightarrow> state \<Rightarrow> (error + unit) \<times> state" where
  "incrementParticipantCount circleId userId s =
     (case map_of (members s) (circleId, userId) of
        Some m \<Rightarrow>
          if m_status m \<noteq> Some Active then
            (case incrementParticipantCountField circleId 1 s of
               Inl err \<Rightarrow> (Inl err, s)
             | Inr s1 \<Rightarrow> (Inr (), s1))
          else (Inr (), s)
      | None \<Rightarrow>
          (case incrementParticipantCountField circleId 1 s of
             Inl err \<Rightarrow> (Inl err, s)
           | Inr s1 \<Rightarrow> (Inr (), s1)))"

definition decrementParticipantCount ::
  "string \<Rightarrow> string \<Rightarrow> state \<Rightarrow> (error + unit) \<times> state" where
  "decrementParticipantCount circleId userId s =
     (case map_of (members s) (circleId, userId) of
        Some m \<Rightarrow>
          if m_status m = Some Active then
            (case incrementParticipantCountField circleId (- 1) s of
               Inl err \<Rightarrow> (Inl err, s)
             | Inr s1 \<Rightarrow> (Inr (), s1))
          else (Inr (), s)
      | None \<Rightarrow> (Inr (), s))"

definition removeHandRaise :: "string \<Rightarrow> string \<Rightarrow> state \<Rightarrow> state" where
  "removeHandRaise circleId userId s =
     s\<lparr>handRaises := AList.delete (circleId, userId) (handRaises s)\<rparr>"

definition startSpeakingTime ::
  "int \<Rightarrow> string \<Rightarrow> string \<Rightarrow> state \<Rightarrow> (error + unit) \<times> state" where
  "startSpeakingTime now circleId userId s =
     (case updateMemberDoc (circleId, userId) (\<lambda>d. d\<lparr>m_lastSpokeAt := Some now\<rparr>) s of
        Inl err \<Rightarrow> (Inl err, s)
      | Inr s1 \<Rightarrow> (Inr (), s1))"

text \<open>
  \<^verbatim>\<open>endSpeakingTime\<close>: \<^verbatim>\<open>Date.now() - member.lastSpokeAt.toMillis()\<close> is added to
  \<^verbatim>\<open>member.totalSpeakTime || 0\<close>.
\<close>

definition endSpeakingTime ::
  "int \<Rightarrow> string \<Rightarrow> string \<Rightarrow> state \<Rightarrow> (error + unit) \<times> state" where
  "endSpeakingTime now circleId userId s =
     (let clearOnly =
            (case updateMemberDoc (circleId, userId) (\<lambda>d. d\<lparr>m_lastSpokeAt := None\<rparr>) s of
               Inl err \<Rightarrow> (Inl err, s)
             | Inr s1 \<Rightarrow> (Inr (), s1))
      in case map_of (members s) (circleId, userId) of
        None \<Rightarrow> clearOnly
      | Some m \<Rightarrow>
          (case m_lastSpokeAt m of
             None \<Rightarrow> clearOnly
           | Some t \<Rightarrow>
               let speakDuration = now - t;
                   currentTotal = (case m_totalSpeakTime m of None \<Rightarrow> 0 | Some n \<Rightarrow> n)
               in (case updateMemberDoc (circleId, userId)
                          (\<lambda>d. d\<lparr>m_totalSpeakTime := Some (currentTotal + speakDuration),
                                  m_lastSpokeAt := None\<rparr>) s of
                     Inl err \<Rightarrow> (Inl err, s)
                   | Inr s1 \<Rightarrow> (Inr (), s1))))"

definition handleParticipantJoined :: "webhookEvent \<Rightarrow> state \<Rightarrow> (error + unit) \<times> state" where
  "handleParticipantJoined ev s =
     (if falsy (roomName ev) \<or> falsy (participantIdentity ev) then (Inr (), s)
      else
        let rm = the (roomName ev); uid = the (participantIdentity ev) in
        if map_of (users s) uid = None then (Inl (Error (''User not found: '' @ uid)), s)
        else incrementParticipantCount rm uid s)"

definition handleParticipantLeft ::
  "int \<Rightarrow> webhookEvent \<Rightarrow> state \<Rightarrow> (error + unit) \<times> state" where
  "handleParticipantLeft now ev s =
     (if falsy (roomName ev) \<or> falsy (participantIdentity ev) then (Inr (), s)
      else
        let rm = the (roomName ev); uid = the (participantIdentity ev) in
        if map_of (users s) uid = None then (Inl (Error (''User not found: '' @ uid)), s)
        else if (case map_of (circles s) rm of None \<Rightarrow> False | Some c \<Rightarrow> c_hostUid c = uid)
        then handleHostDisconnection now rm uid s
        else
          (case decrementParticipantCount rm uid s of
             (Inl err, s1) \<Rightarrow> (Inl err, s1)
           | (Inr u, s1) \<Rightarrow> (Inr (), removeHandRaise rm uid s1)))"

definition handleTrackPublished ::
  "int \<Rightarrow> webhookEvent \<Rightarrow> state \<Rightarrow> (error + unit) \<times> state" where
  "handleTrackPublished now ev s =
     (if falsy (roomName ev) \<or> falsy (participantIdentity ev) \<or> track ev = None then
        (Inr (), s)
      else
        let rm = the (roomName ev); uid = the (participantIdentity ev) in
        if map_of (users s) uid = None then (Inl (Error (''User not found: '' @ uid)), s)
        else if track ev = Some AUDIO then startSpeakingTime now rm uid s
        else (Inr (), s))"

definition handleTrackUnpublished ::
  "int \<Rightarrow> webhookEvent \<Rightarrow> state \<Rightarrow> (error + unit) \<times> state" where
  "handleTrackUnpublished now ev s =
     (if falsy (roomName ev) \<or> falsy (participantIdentity ev) \<or> track ev = None then
        (Inr (), s)
      else
        let rm = the (roomName ev); uid = the (participantIdentity ev) in
        if map_of (users s) uid = None then (Inl (Error (''User not found: '' @ uid)), s)
        else if track ev = Some AUDIO then endSpeakingTime now rm uid s
        else (Inr (), s))"

text \<open>\<^verbatim>\<open>handleEvent\<close>: the dispatch on the event kind; any other kind is only logged.\<close>

definition handleEvent :: "int \<Rightarrow> webhookEvent \<Rightarrow> state \<Rightarrow> (error + unit) \<times> state" where
  "handleEvent now ev s =
     (if event ev = ''participant_joined'' then handleParticipantJoined ev s
      else if event ev = ''participant_left'' then handleParticipantLeft now ev s
      else if event ev = ''track_published'' then handleTrackPublished now ev s
      else if event ev = ''track_unpublished'' then handleTrackUnpublished now ev s
      else (Inr (), s))"

subsection \<open>Events as the handlers receive them\<close>

text \<open>A participant event of the given kind for room \<open>rm\<close> and participant \<open>uid\<close>.\<close>

definition participantEvent :: "string \<Rightarrow> string \<Rightarrow> string \<Rightarrow> webhookEvent" where
  "participantEvent kind rm uid =
     \<lparr>event = kind, roomName = Some rm, participantIdentity = Some uid, track = None\<rparr>"

text \<open>A track event of the given kind for room \<open>rm\<close>, participant \<open>uid\<close> and track type.\<close>

definition trackEvent :: "string \<Rightarrow> string \<Rightarrow> string \<Rightarrow> trackType \<Rightarrow> webhookEvent" where
  "trackEvent kind rm uid ty =
     \<lparr>event = kind, roomName = Some rm, participantIdentity = Some uid, track = Some ty\<rparr>"

section \<open>Example data\<close>

text \<open>Concrete documents and stores, used to run the definitions.\<close>

definition ex_env :: env where
  "ex_env = \<lparr>LIVEKIT_API_KEY = Some ''key'', LIVEKIT_API_SECRET = Some ''secret''\<rparr>"

definition ex_circle :: "circle_status \<Rightarrow> circle" where
  "ex_circle st =
     \<lparr>c_id = ''c1'', c_title = ''t'', c_description = None, c_category = ''music'',
      c_coverUrl = None, c_createdAt = 1000, c_hostUid = ''h'', c_maxSpeakers = 8,
      c_privacy = Public, c_startAt = 1000, c_status = st, c_participantCount = Some 1,
      c_endedAt = None, c_endReason = None, c_hostDisconnectedAt = None,
      c_isReplay = False, c_totalSpeakTime = Some 0, c_handRaiseCount = Some 0,
      c_roleChangeCount = Some 0\<rparr>"

definition ex_member :: "role \<Rightarrow> member_status option \<Rightarrow> member" where
  "ex_member r st =
     \<lparr>m_role = r, m_isMuted = (r = Listener), m_joinedAt = 1000, m_lastSpokeAt = None,
      m_status = st, m_leftAt = None, m_disconnectedAt = None, m_rejoinCount = Some 0,
      m_lastRejoinAt = None, m_totalSpeakTime = Some 700, m_isHandRaised = None,
      m_handRaiseCount = Some 0, m_roleChangeCount = Some 0, m_lastRoleChangeAt = None,
      m_isMutedByHost = None, m_muteReason = None, m_kickCount = Some 0,
      m_lastKickAt = None, m_kickReason = None\<rparr>"

definition ex_users :: "(string \<times> userData) list" where
  "ex_users = [(''h'', \<lparr>fullName = Some ''Hana''\<rparr>), (''u'', \<lparr>fullName = None\<rparr>)]"

text \<open>
  A store with the one circle \<open>c1\<close> of host \<open>h\<close> in status \<open>st\<close> and the given member
  records of that circle.
\<close>

definition ex_state :: "circle_status \<Rightarrow> (string \<times> member) list \<Rightarrow> state" where
  "ex_state st ms =
     \<lparr>circles = [(''c1'', ex_circle st)],
      members = map (\<lambda>(uid, m). ((''c1'', uid), m)) ms,
      handRaises = [],
      users = ex_users,
      timers = []\<rparr>"

text \<open>
  The scheduled circle \<open>c1\<close> with its host, a listener \<open>u\<close> and a raised hand of \<open>u\<close>.
\<close>

definition ex_populated :: "circle_status \<Rightarrow> state" where
  "ex_populated st =
     (ex_state st [(''h'', ex_member Host (Some Active)),
                   (''u'', ex_member Listener (Some Active))])
       \<lparr>handRaises := [((''c1'', ''u''), \<lparr>raisedAt = 1500\<rparr>)]\<rparr>"

text \<open>
  The circles of host \<open>h\<close> stored under the given ids, all created at the given time;
  \<open>ex_quota ids\<close> holds one circle of \<open>h\<close> created at time 1000 and the circles \<open>ids\<close>
  created at time 90000000. \<open>ex_dto\<close> is a request without a start time.
\<close>

definition ex_created :: "int \<Rightarrow> string list \<Rightarrow> (string \<times> circle) list" where
  "ex_created t ids = map (\<lambda>k. (k, (ex_circle Live)\<lparr>c_id := k, c_createdAt := t\<rparr>)) ids"

definition ex_quota :: "string list \<Rightarrow> state" where
  "ex_quota ids =
     \<lparr>circles = ex_created 1000 [''old''] @ ex_created 90000000 ids,
      members = [], handRaises = [], users = ex_users, timers = []\<rparr>"

definition ex_dto :: createCircleDto where
  "ex_dto =
     \<lparr>dto_title = ''t'', dto_description = None, dto_category = ''music'',
      dto_privacy = Public, dto_coverUrl = None, dto_startAt = None,
      dto_maxSpeakers = None, dto_isReplay = None\<rparr>"

section \<open>The one-host invariant\<close>

text \<open>
  The users whose member record of circle \<open>cid\<close> has role \<open>host\<close>, in store order.
\<close>

definition hostMembers :: "string \<Rightarrow> ((string \<times> string) \<times> member) list \<Rightarrow> string list" where
  "hostMembers cid ms =
     map (\<lambda>kv. snd (fst kv)) (filter (\<lambda>kv. fst (fst kv) = cid \<and> m_role (snd kv) = Host) ms)"

text \<open>
  The invariant of the data model (specification, section 3), for the circles \<open>cs\<close> and
  member records \<open>ms\<close> of a store: document paths are unique, member records exist only
  under stored circles, and for every stored circle exactly one member record has role
  \<open>host\<close>, the one of the circle's \<open>hostUid\<close>.
\<close>

definition oneHost :: "(string \<times> circle) list \<Rightarrow> ((string \<times> string) \<times> member) list \<Rightarrow> bool" where
  "oneHost cs ms =
     (distinct (map fst ms)
      \<and> list_all (\<lambda>k. map_of cs (fst k) \<noteq> None) (map fst ms)
      \<and> list_all (\<lambda>cid. case map_of cs cid of
                            None \<Rightarrow> True
                          | Some c \<Rightarrow> hostMembers cid ms = [c_hostUid c])
           (map fst cs))"

definition storeInvariant :: "state \<Rightarrow> bool" where
  "storeInvariant s = oneHost (circles s) (members s)"

text \<open>
  The commands of the claim, with their arguments, and the store after running one and a
  sequence of them; a command that fails leaves whatever it had written.
\<close>

datatype command =
    Create int int string createCircleDto string
  | Join int string string "role option"
  | Promote int string string string role
  | Leave int string string

fun perform :: "env \<Rightarrow> command \<Rightarrow> state \<Rightarrow> state" where
  "perform e (Create now startOfDay circleId dto userId) s =
     snd (createCircle e now startOfDay circleId dto userId s)"
| "perform e (Join now cid userId joinRole) s = snd (joinCircle e now cid userId joinRole s)"
| "perform e (Promote now circleId requesterId targetUserId newRole) s =
     snd (promoteMember e now circleId requesterId targetUserId newRole s)"
| "perform e (Leave now cid userId) s = snd (leaveCircle now cid userId s)"

fun performAll :: "env \<Rightarrow> command list \<Rightarrow> state \<Rightarrow> state" where
  "performAll e [] s = s"
| "performAll e (c # cs) s = performAll e cs (perform e c s)"

text \<open>
  The commands under which the invariant is kept: a circle is created under an unused
  document id, a join does not request the role \<open>host\<close>, and a promotion gives the role
  \<open>host\<close> to the circle's \<open>hostUid\<close> and to nobody else.
\<close>

fun roleKeeping :: "state \<Rightarrow> command \<Rightarrow> bool" where
  "roleKeeping s (Create now startOfDay circleId dto userId) = (map_of (circles s) circleId = None)"
| "roleKeeping s (Join now cid userId joinRole) = (joinRole \<noteq> Some Host)"
| "roleKeeping s (Promote now circleId requesterId targetUserId newRole) =
     (case map_of (circles s) circleId of
        None \<Rightarrow> True
      | Some c \<Rightarrow> (newRole = Host) = (targetUserId = c_hostUid c))"
| "roleKeeping s (Leave now cid userId) = True"

fun roleKeepingAll :: "env \<Rightarrow> state \<Rightarrow> command list \<Rightarrow> bool" where
  "roleKeepingAll e s [] = True"
| "roleKeepingAll e s (c # cs) = (roleKeeping s c \<and> roleKeepingAll e (perform e c s) cs)"

text \<open>The empty store.\<close>

definition emptyStore :: state where
  "emptyStore = \<lparr>circles = [], members = [], handRaises = [], users = [], timers = []\<rparr>"

text \<open>
  A sequence of commands: \<open>h\<close> creates the circle \<open>c1\<close>, \<open>u\<close> joins, is promoted
  to speaker, leaves and joins again.
\<close>

definition ex_cmds :: "command list" where
  "ex_cmds = [Create 1000 0 ''c1'' ex_dto ''h'', Join 2000 ''c1'' ''u'' None,
      Promote 3000 ''c1'' ''h'' ''u'' Speaker, Leave 4000 ''c1'' ''u'',
      Join 5000 ''c1'' ''u'' (Some Listener)]"

text \<open>
  A store with two circles: the scheduled circle \<open>c1\<close> of host \<open>h\<close> and the live circle
  \<open>c2\<close> of host \<open>g\<close>, each with its host and the listener \<open>u\<close> as members and a
  raised hand of \<open>u\<close>.
\<close>

definition ex_two :: state where
  "ex_two =
     \<lparr>circles = [(''c1'', ex_circle Scheduled),
                 (''c2'', (ex_circle Live)\<lparr>c_id := ''c2'', c_hostUid := ''g''\<rparr>)],
      members = [((''c1'', ''h''), ex_member Host (Some Active)),
                 ((''c2'', ''g''), ex_member Host (Some Active)),
                 ((''c1'', ''u''), ex_member Listener (Some Active)),
                 ((''c2'', ''u''), ex_member Listener (Some Active))],
      handRaises = [((''c2'', ''u''), \<lparr>raisedAt = 1400\<rparr>),
                    ((''c1'', ''u''), \<lparr>raisedAt = 1500\<rparr>)],
      users = ex_users,
      timers = [(5000, ''c2'', ''g'')]\<rparr>"

text \<open>
  The ids of the stored circles that the quota query of \<open>createCircle\<close> is meant to
  count: the documents hosted by \<open>uid\<close> whose \<open>createdAt\<close> is not before \<open>startOfDay\<close>.
\<close>

definition storedToday :: "string \<Rightarrow> int \<Rightarrow> state \<Rightarrow> string set" where
  "storedToday uid startOfDay s =
     Set.filter
       (\<lambda>k. case map_of (circles s) k of
              None \<Rightarrow> False
            | Some c \<Rightarrow> c_hostUid c = uid \<and> startOfDay \<le> c_createdAt c)
       (set (map fst (circles s)))"

text \<open>
  A request for a circle starting at time 99000000, and the store after \<open>h\<close> has
  created five such circles \<open>a\<close> to \<open>e\<close>, one after the other, on the day that
  starts at 86400000.
\<close>

definition ex_later :: createCircleDto where
  "ex_later = ex_dto\<lparr>dto_startAt := Some 99000000\<rparr>"

definition ex_five :: state where
  "ex_five =
     performAll ex_env
       [Create 90000001 86400000 ''a'' ex_later ''h'',
        Create 90000002 86400000 ''b'' ex_later ''h'',
        Create 90000003 86400000 ''c'' ex_later ''h'',
        Create 90000004 86400000 ''d'' ex_later ''h'',
        Create 90000005 86400000 ''e'' ex_later ''h'']
       emptyStore"

text \<open>The transition table as the specification writes it (section 4.1).\<close>

definition spec_table :: "circle_status \<Rightarrow> circle_status set" where
  "spec_table a = (case a of Scheduled \<Rightarrow> {Live, Ended} | Live \<Rightarrow> {Ended} | Ended \<Rightarrow> {})"

section \<open>Lemmas\<close>

subsection \<open>Status table and document updates\<close>

lemma isValidStatusTransition_table:
  "isValidStatusTransition a b \<longleftrightarrow> b \<in> spec_table a"
  by (cases a; cases b)
     (simp_all add: isValidStatusTransition_def validStatusTransitions_def spec_table_def)

lemma updateCircleDoc_Some:
  "map_of (circles s) cid = Some c \<Longrightarrow>
   updateCircleDoc cid f s = Inr (s\<lparr>circles := AList.update cid (f c) (circles s)\<rparr>)"
  by (simp add: updateCircleDoc_def)

lemma set_batchDelete:
  "set (batchDelete ks xs) = {p \<in> set xs. fst p \<notin> set ks}"
  unfolding batchDelete_def
proof (induction ks arbitrary: xs)
  case Nil
  show ?case by simp
next
  case (Cons k ks)
  have "set (AList.delete k xs) = {p \<in> set xs. fst p \<noteq> k}"
    by (auto simp: AList.delete_eq)
  with Cons show ?case by auto
qed

lemma set_subDocs: "set (subDocs cid xs) = {fst p |p. p \<in> set xs \<and> fst (fst p) = cid}"
  unfolding subDocs_def by force

lemma subDocs_batchDelete: "subDocs cid (batchDelete (subDocs cid xs) xs) = []"
proof -
  have "set (subDocs cid (batchDelete (subDocs cid xs) xs)) = {}"
    unfolding set_subDocs set_batchDelete by blast
  then show ?thesis by simp
qed

lemma subDocs_empty_map_of:
  assumes "subDocs cid xs = []"
  shows "map_of xs (cid, u) = None"
proof -
  have "set (subDocs cid xs) = {}" using assms by simp
  then have "(cid, u) \<notin> fst ` set xs"
    unfolding set_subDocs by force
  then show ?thesis by (simp add: map_of_eq_None_iff)
qed

lemma ex_populated_eval:
  "ex_populated st =
     \<lparr>circles = [(''c1'', ex_circle st)],
      members = [((''c1'', ''h''), ex_member Host (Some Active)),
                 ((''c1'', ''u''), ex_member Listener (Some Active))],
      handRaises = [((''c1'', ''u''), \<lparr>raisedAt = 1500\<rparr>)],
      users = ex_users,
      timers = []\<rparr>"
  by (simp add: ex_populated_def ex_state_def)

lemma updateMemberDoc_Some:
  "map_of (members s) k = Some m \<Longrightarrow>
   updateMemberDoc k f s = Inr (s\<lparr>members := AList.update k (f m) (members s)\<rparr>)"
  by (simp add: updateMemberDoc_def)

lemma incrementParticipantCountField_Some:
  "map_of (circles s) cid = Some c \<Longrightarrow>
   incrementParticipantCountField cid d s =
     Inr (s\<lparr>circles := AList.update cid
                (c\<lparr>c_participantCount := increment d (c_participantCount c)\<rparr>) (circles s)\<rparr>)"
  by (simp add: incrementParticipantCountField_def updateCircleDoc_def)

lemma mintToken_ok:
  "\<not> falsy (LIVEKIT_API_KEY e) \<Longrightarrow> \<not> falsy (LIVEKIT_API_SECRET e) \<Longrightarrow> uid \<noteq> [] \<Longrightarrow>
   cid \<noteq> [] \<Longrightarrow> \<exists>tk. mintToken e uid cid r fn = Inr tk"
  by (simp add: mintToken_def)

subsection \<open>Track events\<close>

lemma handleEvent_track_published:
  assumes "rm \<noteq> []" and "uid \<noteq> []" and "map_of (users s) uid = Some u"
  shows "handleEvent now (trackEvent ''track_published'' rm uid ty) s
           = (if ty = AUDIO then startSpeakingTime now rm uid s else (Inr (), s))"
  using assms
  by (simp add: handleEvent_def handleTrackPublished_def trackEvent_def falsy_def)

lemma handleEvent_track_unpublished:
  assumes "rm \<noteq> []" and "uid \<noteq> []" and "map_of (users s) uid = Some u"
  shows "handleEvent now (trackEvent ''track_unpublished'' rm uid ty) s
           = (if ty = AUDIO then endSpeakingTime now rm uid s else (Inr (), s))"
  using assms
  by (simp add: handleEvent_def handleTrackUnpublished_def trackEvent_def falsy_def)

lemma startSpeakingTime_member:
  assumes "map_of (members s) (rm, uid) = Some m"
  shows "startSpeakingTime now rm uid s
           = (Inr (), s\<lparr>members := AList.update (rm, uid) (m\<lparr>m_lastSpokeAt := Some now\<rparr>) (members s)\<rparr>)"
  using assms by (simp add: startSpeakingTime_def updateMemberDoc_Some)

lemma endSpeakingTime_member:
  assumes "map_of (members s) (rm, uid) = Some m" and "m_lastSpokeAt m = Some t"
  shows "endSpeakingTime now rm uid s
           = (Inr (), s\<lparr>members := AList.update (rm, uid)
                 (m\<lparr>m_totalSpeakTime :=
                      Some ((case m_totalSpeakTime m of None \<Rightarrow> 0 | Some n \<Rightarrow> n) + (now - t)),
                    m_lastSpokeAt := None\<rparr>) (members s)\<rparr>)"
  using assms by (simp add: endSpeakingTime_def updateMemberDoc_Some Let_def)

subsection \<open>Daily quota\<close>

lemma update_fresh:
  "k \<notin> fst ` set xs \<Longrightarrow> AList.update k v xs = xs @ [(k, v)]"
  by (induction xs) auto

lemma circlesCreatedSince_old:
  assumes "c_createdAt old < startOfDay" and "k \<notin> fst ` set (circles s)"
  shows "circlesCreatedSince uid startOfDay (s\<lparr>circles := AList.update k old (circles s)\<rparr>)
           = circlesCreatedSince uid startOfDay s"
  using assms by (simp add: circlesCreatedSince_def update_fresh)

lemma createCircle_limited_iff:
  assumes "uid \<noteq> []"
  shows "(\<exists>msg. fst (createCircle e now startOfDay cid dto uid s) = Inl (BadRequestException msg))
           \<longleftrightarrow> 5 \<le> length (circlesCreatedSince uid startOfDay s)"
  using assms
  by (simp add: createCircle_def Let_def mintToken_def split: sum.splits)

lemma ex_quota_count:
  "length (circlesCreatedSince ''h'' 86400000 (ex_quota ids)) = length ids"
  by (simp add: circlesCreatedSince_def ex_quota_def ex_created_def ex_circle_def
      case_prod_beta o_def)

subsection \<open>Host disconnection and rejoin\<close>

lemma joinCircle_not_left_unchanged:
  assumes "map_of (members s) (cid, uid) = Some m" and "m_status m \<noteq> Some Left"
  shows "snd (joinCircle e now cid uid jr s) = s"
  using assms
  by (simp add: joinCircle_def Let_def split: option.splits)

lemma handleHostDisconnection_marks:
  assumes "map_of (members s) (cid, hid) = Some m" and "map_of (circles s) cid = Some c"
  shows "handleHostDisconnection now cid hid s
           = (Inr (),
              s\<lparr>members := AList.update (cid, hid)
                    (m\<lparr>m_status := Some Disconnected, m_disconnectedAt := Some now\<rparr>) (members s),
                circles := AList.update cid (c\<lparr>c_hostDisconnectedAt := Some now\<rparr>) (circles s),
                timers := timers s @ [(now + 300000, cid, hid)]\<rparr>)"
  using assms
  by (simp add: handleHostDisconnection_def updateMemberDoc_Some updateCircleDoc_def)

lemma hostDisconnectionTimeout_ends:
  assumes "map_of (members s) (cid, hid) = Some m" and "m_status m = Some Disconnected"
    and "map_of (circles s) cid = Some c"
  shows "hostDisconnectionTimeout now cid hid s
           = s\<lparr>circles := AList.update cid
                  (c\<lparr>c_status := Ended, c_endedAt := Some now,
                     c_endReason := Some HostDisconnected\<rparr>) (circles s)\<rparr>"
  using assms
  by (simp add: hostDisconnectionTimeout_def endCircleDueToHostDisconnection_def
      updateCircleDoc_def)

lemma hostDisconnectionTimeout_noop:
  assumes "map_of (members s) (cid, hid) = Some m" and "m_status m \<noteq> Some Disconnected"
  shows "hostDisconnectionTimeout now cid hid s = s"
  using assms by (simp add: hostDisconnectionTimeout_def)

lemma host_rejoin_does_not_reactivate:
  assumes "map_of (members s) (cid, hid) = Some m" and "map_of (circles s) cid = Some c"
  shows "\<exists>m' c'. map_of (members (snd (joinCircle e t1 cid hid jr
                        (snd (handleHostDisconnection t0 cid hid s))))) (cid, hid) = Some m'
           \<and> m_status m' = Some Disconnected
           \<and> map_of (circles (hostDisconnectionTimeout t2 cid hid
                  (snd (joinCircle e t1 cid hid jr
                        (snd (handleHostDisconnection t0 cid hid s)))))) cid = Some c'
           \<and> c_status c' = Ended \<and> c_endReason c' = Some HostDisconnected"
proof -
  let ?m1 = "m\<lparr>m_status := Some Disconnected, m_disconnectedAt := Some t0\<rparr>"
  let ?c1 = "c\<lparr>c_hostDisconnectedAt := Some t0\<rparr>"
  let ?s1 = "snd (handleHostDisconnection t0 cid hid s)"
  have m1: "map_of (members ?s1) (cid, hid) = Some ?m1"
    and c1: "map_of (circles ?s1) cid = Some ?c1"
    by (simp_all add: handleHostDisconnection_marks [OF assms] update_Some_unfold)
  have st: "m_status ?m1 \<noteq> Some Left" "m_status ?m1 = Some Disconnected" by simp_all
  have s2: "snd (joinCircle e t1 cid hid jr ?s1) = ?s1"
    using joinCircle_not_left_unchanged [OF m1 st(1)] .
  show ?thesis
    unfolding s2 hostDisconnectionTimeout_ends [OF m1 st(2) c1]
    using m1 by (simp add: update_Some_unfold)
qed

subsection \<open>Participant count on join events\<close>

lemma handleEvent_participant_joined:
  assumes "rm \<noteq> []" and "uid \<noteq> []" and "map_of (users s) uid = Some u"
  shows "handleEvent now (participantEvent ''participant_joined'' rm uid) s
           = incrementParticipantCount rm uid s"
  using assms
  by (simp add: handleEvent_def handleParticipantJoined_def participantEvent_def falsy_def)

lemma participant_joined_increments_iff:
  assumes "rm \<noteq> []" and "uid \<noteq> []" and "map_of (users s) uid = Some u"
    and "map_of (circles s) rm = Some c"
  shows "handleEvent now (participantEvent ''participant_joined'' rm uid) s
           = (Inr (),
              if (case map_of (members s) (rm, uid) of
                    None \<Rightarrow> True
                  | Some m \<Rightarrow> m_status m \<noteq> Some Active)
              then s\<lparr>circles := AList.update rm
                       (c\<lparr>c_participantCount := increment 1 (c_participantCount c)\<rparr>)
                       (circles s)\<rparr>
              else s)"
  using assms
  by (simp add: handleEvent_participant_joined incrementParticipantCount_def
      incrementParticipantCountField_Some split: option.splits)

subsection \<open>The one-host invariant and the commands that keep it\<close>

lemma oneHost_iff:
  "oneHost cs ms \<longleftrightarrow>
     distinct (map fst ms)
     \<and> (\<forall>k m. map_of ms k = Some m \<longrightarrow> map_of cs (fst k) \<noteq> None)
     \<and> (\<forall>cid c. map_of cs cid = Some c \<longrightarrow> hostMembers cid ms = [c_hostUid c])"
proof -
  have a: "list_all (\<lambda>k. map_of cs (fst k) \<noteq> None) (map fst ms)
        \<longleftrightarrow> (\<forall>k m. map_of ms k = Some m \<longrightarrow> map_of cs (fst k) \<noteq> None)"
  proof
    assume l: "list_all (\<lambda>k. map_of cs (fst k) \<noteq> None) (map fst ms)"
    show "\<forall>k m. map_of ms k = Some m \<longrightarrow> map_of cs (fst k) \<noteq> None"
    proof (intro allI impI)
      fix k m assume "map_of ms k = Some m"
      then have "(k, m) \<in> set ms" by (rule map_of_SomeD)
      then have "k \<in> set (map fst ms)" by force
      with l show "map_of cs (fst k) \<noteq> None"
        unfolding list_all_iff by blast
    qed
  next
    assume r: "\<forall>k m. map_of ms k = Some m \<longrightarrow> map_of cs (fst k) \<noteq> None"
    show "list_all (\<lambda>k. map_of cs (fst k) \<noteq> None) (map fst ms)"
      unfolding list_all_iff
    proof
      fix k assume "k \<in> set (map fst ms)"
      then obtain m where "map_of ms k = Some m"
        by (metis map_of_eq_None_iff not_Some_eq set_map)
      with r show "map_of cs (fst k) \<noteq> None" by blast
    qed
  qed
  have b: "list_all (\<lambda>cid. case map_of cs cid of None \<Rightarrow> True
                          | Some c \<Rightarrow> hostMembers cid ms = [c_hostUid c]) (map fst cs)
        \<longleftrightarrow> (\<forall>cid c. map_of cs cid = Some c \<longrightarrow> hostMembers cid ms = [c_hostUid c])"
  proof
    assume l: "list_all (\<lambda>cid. case map_of cs cid of None \<Rightarrow> True
                          | Some c \<Rightarrow> hostMembers cid ms = [c_hostUid c]) (map fst cs)"
    show "\<forall>cid c. map_of cs cid = Some c \<longrightarrow> hostMembers cid ms = [c_hostUid c]"
    proof (intro allI impI)
      fix cid c assume c: "map_of cs cid = Some c"
      then have "(cid, c) \<in> set cs" by (rule map_of_SomeD)
      then have "cid \<in> set (map fst cs)" by force
      with l c show "hostMembers cid ms = [c_hostUid c]"
        by (auto simp: list_all_iff)
    qed
  next
    assume r: "\<forall>cid c. map_of cs cid = Some c \<longrightarrow> hostMembers cid ms = [c_hostUid c]"
    show "list_all (\<lambda>cid. case map_of cs cid of None \<Rightarrow> True
                          | Some c \<Rightarrow> hostMembers cid ms = [c_hostUid c]) (map fst cs)"
      unfolding list_all_iff using r by (auto split: option.splits)
  qed
  show ?thesis
    unfolding oneHost_def using a b by blast
qed

lemma hostMembers_update_same:
  assumes "map_of ms k = Some m" and "(m_role m' = Host) = (m_role m = Host)"
  shows "hostMembers cid (AList.update k m' ms) = hostMembers cid ms"
  using assms by (induction ms) (auto simp: hostMembers_def)

lemma hostMembers_update_fresh:
  assumes "map_of ms k = None"
  shows "hostMembers cid (AList.update k m' ms)
           = hostMembers cid ms @ (if fst k = cid \<and> m_role m' = Host then [snd k] else [])"
proof -
  have "k \<notin> fst ` set ms" using assms by (simp add: map_of_eq_None_iff)
  then show ?thesis by (simp add: update_fresh hostMembers_def)
qed

lemma hostMembers_member:
  assumes "distinct (map fst ms)" and "map_of ms (cid, u) = Some m"
  shows "m_role m = Host \<longleftrightarrow> u \<in> set (hostMembers cid ms)"
proof
  assume "m_role m = Host"
  moreover have "((cid, u), m) \<in> set ms" using assms(2) by (rule map_of_SomeD)
  ultimately show "u \<in> set (hostMembers cid ms)"
    unfolding hostMembers_def by force
next
  assume "u \<in> set (hostMembers cid ms)"
  then obtain kv where kv: "kv \<in> set ms" "fst (fst kv) = cid" "m_role (snd kv) = Host"
      "snd (fst kv) = u"
    unfolding hostMembers_def by auto
  then have "((cid, u), snd kv) \<in> set ms" by (metis prod.collapse)
  with assms(1) have "map_of ms (cid, u) = Some (snd kv)" by simp
  with assms(2) kv(3) show "m_role m = Host" by simp
qed

lemma hostMembers_stored:
  assumes "u \<in> set (hostMembers cid ms)"
  shows "map_of ms (cid, u) \<noteq> None"
proof -
  from assms obtain kv where kv: "kv \<in> set ms" "fst (fst kv) = cid" "snd (fst kv) = u"
    unfolding hostMembers_def by auto
  then have "(cid, u) \<in> fst ` set ms" by (metis image_eqI prod.collapse)
  then show ?thesis by (simp add: map_of_eq_None_iff)
qed

lemma hostMembers_no_circle:
  assumes "\<forall>k m. map_of ms k = Some m \<longrightarrow> fst k \<noteq> cid"
  shows "hostMembers cid ms = []"
proof -
  have "fst (fst kv) \<noteq> cid" if "kv \<in> set ms" for kv
  proof -
    from that have "fst kv \<in> fst ` set ms" by simp
    then obtain m where "map_of ms (fst kv) = Some m"
      by (metis map_of_eq_None_iff not_Some_eq)
    with assms show ?thesis by blast
  qed
  then show ?thesis
    unfolding hostMembers_def by (simp add: filter_empty_conv)
qed

lemma map_of_update_cases:
  assumes "map_of (AList.update k v xs) k' = Some v'"
  shows "(k' = k \<and> v' = v) \<or> (k' \<noteq> k \<and> map_of xs k' = Some v')"
  using assms by (simp add: update_conv' split: if_splits)

lemma oneHost_circle_update:
  assumes "oneHost cs ms" and "map_of cs cid = Some c" and "c_hostUid c' = c_hostUid c"
  shows "oneHost (AList.update cid c' cs) ms"
proof -
  have d: "distinct (map fst ms)"
    and i2: "\<And>k m. map_of ms k = Some m \<Longrightarrow> map_of cs (fst k) \<noteq> None"
    and i3: "\<And>cid c. map_of cs cid = Some c \<Longrightarrow> hostMembers cid ms = [c_hostUid c]"
    using assms(1) unfolding oneHost_iff by blast+
  show ?thesis
    unfolding oneHost_iff
  proof (intro conjI allI impI)
    show "distinct (map fst ms)" by (rule d)
  next
    fix k m assume "map_of ms k = Some m"
    then have "map_of cs (fst k) \<noteq> None" by (rule i2)
    then show "map_of (AList.update cid c' cs) (fst k) \<noteq> None"
      by (simp add: update_conv')
  next
    fix cid' c'' assume "map_of (AList.update cid c' cs) cid' = Some c''"
    then have "(cid' = cid \<and> c'' = c') \<or> (cid' \<noteq> cid \<and> map_of cs cid' = Some c'')"
      by (rule map_of_update_cases)
    then show "hostMembers cid' ms = [c_hostUid c'']"
      using i3 [OF assms(2)] i3 [of cid' c''] assms(3) by auto
  qed
qed

lemma oneHost_member_update:
  assumes "oneHost cs ms" and "map_of ms k = Some m"
    and "(m_role m' = Host) = (m_role m = Host)"
  shows "oneHost cs (AList.update k m' ms)"
proof -
  have d: "distinct (map fst ms)"
    and i2: "\<And>k m. map_of ms k = Some m \<Longrightarrow> map_of cs (fst k) \<noteq> None"
    and i3: "\<And>cid c. map_of cs cid = Some c \<Longrightarrow> hostMembers cid ms = [c_hostUid c]"
    using assms(1) unfolding oneHost_iff by blast+
  show ?thesis
    unfolding oneHost_iff
  proof (intro conjI allI impI)
    show "distinct (map fst (AList.update k m' ms))"
      using d by (simp add: distinct_update)
  next
    fix k' m'' assume "map_of (AList.update k m' ms) k' = Some m''"
    then have "(k' = k \<and> m'' = m') \<or> (k' \<noteq> k \<and> map_of ms k' = Some m'')"
      by (rule map_of_update_cases)
    then show "map_of cs (fst k') \<noteq> None"
      using i2 [OF assms(2)] i2 [of k' m''] by blast
  next
    fix cid c assume "map_of cs cid = Some c"
    then show "hostMembers cid (AList.update k m' ms) = [c_hostUid c]"
      using i3 by (simp add: hostMembers_update_same [OF assms(2,3)])
  qed
qed

lemma oneHost_member_new:
  assumes "oneHost cs ms" and "map_of ms k = None" and "map_of cs (fst k) \<noteq> None"
    and "m_role m' \<noteq> Host"
  shows "oneHost cs (AList.update k m' ms)"
proof -
  have d: "distinct (map fst ms)"
    and i2: "\<And>k m. map_of ms k = Some m \<Longrightarrow> map_of cs (fst k) \<noteq> None"
    and i3: "\<And>cid c. map_of cs cid = Some c \<Longrightarrow> hostMembers cid ms = [c_hostUid c]"
    using assms(1) unfolding oneHost_iff by blast+
  show ?thesis
    unfolding oneHost_iff
  proof (intro conjI allI impI)
    show "distinct (map fst (AList.update k m' ms))"
      using d by (simp add: distinct_update)
  next
    fix k' m'' assume "map_of (AList.update k m' ms) k' = Some m''"
    then have "(k' = k \<and> m'' = m') \<or> (k' \<noteq> k \<and> map_of ms k' = Some m'')"
      by (rule map_of_update_cases)
    then show "map_of cs (fst k') \<noteq> None"
      using assms(3) i2 [of k' m''] by blast
  next
    fix cid c assume "map_of cs cid = Some c"
    then show "hostMembers cid (AList.update k m' ms) = [c_hostUid c]"
      using i3 assms(4) by (simp add: hostMembers_update_fresh [OF assms(2)])
  qed
qed

lemma oneHost_host_stored:
  assumes "oneHost cs ms" and "map_of cs cid = Some c"
  shows "map_of ms (cid, c_hostUid c) \<noteq> None"
proof -
  have "hostMembers cid ms = [c_hostUid c]"
    using assms unfolding oneHost_iff by blast
  then have "c_hostUid c \<in> set (hostMembers cid ms)" by simp
  then show ?thesis by (rule hostMembers_stored)
qed

lemma oneHost_role:
  assumes "oneHost cs ms" and "map_of cs cid = Some c" and "map_of ms (cid, u) = Some m"
  shows "m_role m = Host \<longleftrightarrow> u = c_hostUid c"
proof -
  have d: "distinct (map fst ms)" and h: "hostMembers cid ms = [c_hostUid c]"
    using assms(1,2) unfolding oneHost_iff by blast+
  show ?thesis
    using hostMembers_member [OF d assms(3)] h by simp
qed

lemma oneHost_create:
  assumes "oneHost cs ms" and "map_of cs cid = None" and "c_hostUid c = uid"
    and "m_role m = Host"
  shows "oneHost (AList.update cid c cs) (AList.update (cid, uid) m ms)"
proof -
  have d: "distinct (map fst ms)"
    and i2: "\<And>k m. map_of ms k = Some m \<Longrightarrow> map_of cs (fst k) \<noteq> None"
    and i3: "\<And>cid c. map_of cs cid = Some c \<Longrightarrow> hostMembers cid ms = [c_hostUid c]"
    using assms(1) unfolding oneHost_iff by blast+
  have none: "\<forall>k m. map_of ms k = Some m \<longrightarrow> fst k \<noteq> cid"
    using i2 assms(2) by blast
  have fresh: "map_of ms (cid, uid) = None"
  proof (cases "map_of ms (cid, uid)")
    case (Some m0)
    with none have "fst (cid, uid) \<noteq> cid" by blast
    then show ?thesis by simp
  qed simp
  have empty: "hostMembers cid ms = []"
    using none by (rule hostMembers_no_circle)
  show ?thesis
    unfolding oneHost_iff
  proof (intro conjI allI impI)
    show "distinct (map fst (AList.update (cid, uid) m ms))"
      using d by (simp add: distinct_update)
  next
    fix k m' assume "map_of (AList.update (cid, uid) m ms) k = Some m'"
    then have "(k = (cid, uid) \<and> m' = m) \<or> (k \<noteq> (cid, uid) \<and> map_of ms k = Some m')"
      by (rule map_of_update_cases)
    then show "map_of (AList.update cid c cs) (fst k) \<noteq> None"
    proof
      assume "k = (cid, uid) \<and> m' = m"
      then show ?thesis by (simp add: update_conv')
    next
      assume "k \<noteq> (cid, uid) \<and> map_of ms k = Some m'"
      then have "map_of cs (fst k) \<noteq> None" using i2 by blast
      then show ?thesis by (simp add: update_conv')
    qed
  next
    fix cid' c' assume "map_of (AList.update cid c cs) cid' = Some c'"
    then have "(cid' = cid \<and> c' = c) \<or> (cid' \<noteq> cid \<and> map_of cs cid' = Some c')"
      by (rule map_of_update_cases)
    then show "hostMembers cid' (AList.update (cid, uid) m ms) = [c_hostUid c']"
    proof
      assume "cid' = cid \<and> c' = c"
      then show ?thesis
        using assms(3,4) empty by (simp add: hostMembers_update_fresh [OF fresh])
    next
      assume "cid' \<noteq> cid \<and> map_of cs cid' = Some c'"
      then show ?thesis
        using i3 [of cid' c'] by (auto simp add: hostMembers_update_fresh [OF fresh])
    qed
  qed
qed

lemma createCircle_keeps_invariant:
  assumes "storeInvariant s" and "map_of (circles s) cid = None"
  shows "storeInvariant (snd (createCircle e now startOfDay cid dto uid s))"
  using assms
  by (simp add: createCircle_def Let_def storeInvariant_def oneHost_create
      split: sum.splits)

lemma leaveCircle_keeps_invariant:
  assumes "storeInvariant s"
  shows "storeInvariant (snd (leaveCircle now cid uid s))"
proof (cases "map_of (circles s) cid")
  case None
  then show ?thesis using assms by (simp add: leaveCircle_def)
next
  case (Some c)
  show ?thesis
  proof (cases "map_of (members s) (cid, uid)")
    case None
    then show ?thesis
      using assms Some by (simp add: leaveCircle_def updateMemberDoc_def)
  next
    case m: (Some m)
    let ?ms = "AList.update (cid, uid) (m\<lparr>m_leftAt := Some now, m_status := Some Left\<rparr>)
                 (members s)"
    have a: "oneHost (circles s) ?ms"
      using assms m unfolding storeInvariant_def
      by (intro oneHost_member_update [where m = m]) simp_all
    have b: "oneHost (AList.update cid
                (c\<lparr>c_participantCount := increment (- 1) (c_participantCount c)\<rparr>)
                (circles s)) ?ms"
      using a Some by (intro oneHost_circle_update [where c = c]) simp_all
    show ?thesis
      using assms Some m a b
      by (simp add: leaveCircle_def updateMemberDoc_def Let_def
          incrementParticipantCountField_def updateCircleDoc_def storeInvariant_def)
  qed
qed

lemma promoteMember_keeps_invariant:
  assumes "storeInvariant s"
    and "case map_of (circles s) cid of None \<Rightarrow> True
         | Some c \<Rightarrow> (newRole = Host) = (target = c_hostUid c)"
  shows "storeInvariant (snd (promoteMember e now cid requester target newRole s))"
proof (cases "map_of (circles s) cid")
  case None
  then show ?thesis using assms by (simp add: promoteMember_def)
next
  case (Some c)
  show ?thesis
  proof (cases "map_of (members s) (cid, target)")
    case None
    then show ?thesis
      using assms Some by (simp add: promoteMember_def)
  next
    case m: (Some m)
    let ?m' = "m\<lparr>m_role := newRole, m_lastRoleChangeAt := Some now,
                  m_roleChangeCount := increment 1 (m_roleChangeCount m)\<rparr>"
    have r: "(m_role m = Host) = (target = c_hostUid c)"
      using assms(1) Some m unfolding storeInvariant_def by (rule oneHost_role)
    have g: "(newRole = Host) = (target = c_hostUid c)"
      using assms(2) Some by simp
    have a: "oneHost (circles s) (AList.update (cid, target) ?m' (members s))"
      using assms(1) m r g unfolding storeInvariant_def
      by (intro oneHost_member_update [where m = m]) simp_all
    show ?thesis
      using assms(1) Some m a
      by (simp add: promoteMember_def updateMemberDoc_def storeInvariant_def
          split: sum.splits)
  qed
qed

lemma joinCircle_keeps_invariant:
  assumes "storeInvariant s" and "jr \<noteq> Some Host"
  shows "storeInvariant (snd (joinCircle e now cid uid jr s))"
proof (cases "map_of (circles s) cid")
  case None
  then show ?thesis using assms by (simp add: joinCircle_def)
next
  case (Some c)
  have inv: "oneHost (circles s) (members s)"
    using assms(1) by (simp add: storeInvariant_def)
  let ?c' = "c\<lparr>c_participantCount := increment 1 (c_participantCount c)\<rparr>"
  have counted: "oneHost (AList.update cid ?c' (circles s)) ms" if "oneHost (circles s) ms" for ms
    using that Some by (intro oneHost_circle_update [where c = c]) simp_all
  show ?thesis
  proof (cases "map_of (members s) (cid, uid)")
    case m: (Some m)
    let ?m' = "m\<lparr>m_status := Some Active, m_leftAt := None,
                  m_rejoinCount := Some ((case m_rejoinCount m of None \<Rightarrow> 0 | Some n \<Rightarrow> n) + 1),
                  m_lastRejoinAt := Some now, m_joinedAt := now\<rparr>"
    have "oneHost (circles s) (AList.update (cid, uid) ?m' (members s))"
      using inv m by (intro oneHost_member_update [where m = m]) simp_all
    then have "oneHost (AList.update cid ?c' (circles s))
                 (AList.update (cid, uid) ?m' (members s))"
      by (rule counted)
    then show ?thesis
      using assms(1) Some m
      by (simp add: joinCircle_def Let_def updateMemberDoc_def
          incrementParticipantCountField_def updateCircleDoc_def storeInvariant_def)
  next
    case None
    have nothost: "c_hostUid c \<noteq> uid"
      using oneHost_host_stored [OF inv Some] None by auto
    define requestedRole where "requestedRole = (case jr of None \<Rightarrow> Listener | Some r \<Rightarrow> r)"
    have rr: "requestedRole \<noteq> Host"
      using assms(2) by (cases jr) (simp_all add: requestedRole_def)
    have new: "oneHost (AList.update cid ?c' (circles s))
                 (AList.update (cid, uid) m' (members s))" if "m_role m' = requestedRole" for m'
    proof -
      have "oneHost (circles s) (AList.update (cid, uid) m' (members s))"
        using inv None Some that rr by (intro oneHost_member_new) simp_all
      then show ?thesis by (rule counted)
    qed
    show ?thesis
      using assms(1) Some None nothost new
      by (simp add: joinCircle_def Let_def incrementParticipantCountField_def
          updateCircleDoc_def storeInvariant_def requestedRole_def)
  qed
qed

lemma perform_keeps_invariant:
  assumes "storeInvariant s" and "roleKeeping s c"
  shows "storeInvariant (perform e c s)"
proof (cases c)
  case (Create now startOfDay circleId dto userId)
  then show ?thesis using assms by (simp add: createCircle_keeps_invariant)
next
  case (Join now cid userId joinRole)
  then show ?thesis using assms by (simp add: joinCircle_keeps_invariant)
next
  case (Promote now circleId requesterId targetUserId newRole)
  then show ?thesis using assms by (simp add: promoteMember_keeps_invariant)
next
  case (Leave now cid userId)
  then show ?thesis using assms by (simp add: leaveCircle_keeps_invariant)
qed

lemma performAll_keeps_invariant:
  assumes "storeInvariant s" and "roleKeepingAll e s cmds"
  shows "storeInvariant (performAll e cmds s)"
  using assms
proof (induction cmds arbitrary: s)
  case Nil
  then show ?case by simp
next
  case (Cons c cmds)
  from Cons.prems have "storeInvariant (perform e c s)"
    by (simp add: perform_keeps_invariant)
  with Cons show ?case by simp
qed

lemma emptyStore_invariant: "storeInvariant emptyStore"
  by (simp add: storeInvariant_def oneHost_def emptyStore_def)

lemma delete_filter: "AList.delete k xs = filter (\<lambda>p. fst p \<noteq> k) xs"
  by (induction xs) auto

lemma batchDelete_filter:
  "batchDelete ks xs = filter (\<lambda>p. fst p \<notin> set ks) xs"
  unfolding batchDelete_def
proof (induction ks arbitrary: xs)
  case Nil
  show ?case by simp
next
  case (Cons k ks)
  have "fold AList.delete (k # ks) xs = fold AList.delete ks (filter (\<lambda>p. fst p \<noteq> k) xs)"
    by (simp add: delete_filter)
  also have "\<dots> = filter (\<lambda>p. fst p \<notin> set ks) (filter (\<lambda>p. fst p \<noteq> k) xs)"
    by (rule Cons.IH)
  also have "\<dots> = filter (\<lambda>p. fst p \<notin> set (k # ks)) xs"
    by (simp add: conj_commute)
  finally show ?case .
qed

lemma batchDelete_subDocs:
  "batchDelete (subDocs cid xs) xs = filter (\<lambda>kv. fst (fst kv) \<noteq> cid) xs"
proof -
  have "(fst p \<notin> set (subDocs cid xs)) = (fst (fst p) \<noteq> cid)" if p: "p \<in> set xs" for p
  proof
    assume "fst p \<notin> set (subDocs cid xs)"
    with p show "fst (fst p) \<noteq> cid" unfolding set_subDocs by blast
  next
    assume "fst (fst p) \<noteq> cid"
    then show "fst p \<notin> set (subDocs cid xs)" unfolding set_subDocs by force
  qed
  then have "filter (\<lambda>p. fst p \<notin> set (subDocs cid xs)) xs
               = filter (\<lambda>kv. fst (fst kv) \<noteq> cid) xs"
    by (rule filter_cong [OF refl])
  then show ?thesis
    unfolding batchDelete_filter .
qed

lemma map_of_filter_other:
  assumes "fst k \<noteq> cid"
  shows "map_of (filter (\<lambda>kv. fst (fst kv) \<noteq> cid) xs) k = map_of xs k"
  using assms by (induction xs) auto

lemma deleteCircle_state:
  assumes "map_of (circles s) cid = Some c" and "c_hostUid c = uid" and "uid \<noteq> []"
    and "c_status c = Scheduled"
  shows "deleteCircle cid uid s
           = (Inr (cid, True),
              s\<lparr>circles := AList.delete cid (circles s),
                members := filter (\<lambda>kv. fst (fst kv) \<noteq> cid) (members s),
                handRaises := filter (\<lambda>kv. fst (fst kv) \<noteq> cid) (handRaises s)\<rparr>)"
  using assms by (simp add: deleteCircle_def Let_def batchDelete_subDocs)

lemma circlesCreatedSince_card:
  assumes "distinct (map fst (circles s))"
  shows "length (circlesCreatedSince uid startOfDay s) = card (storedToday uid startOfDay s)"
proof -
  let ?P = "\<lambda>kc. c_hostUid (snd kc) = uid \<and> startOfDay \<le> c_createdAt (snd kc)"
  let ?F = "filter ?P (circles s)"
  have F: "circlesCreatedSince uid startOfDay s = ?F"
    unfolding circlesCreatedSince_def by (rule filter_cong) auto
  have d: "distinct (map fst ?F)"
    using assms by (rule distinct_map_filter)
  have "set (map fst ?F) = storedToday uid startOfDay s"
  proof (intro set_eqI iffI)
    fix k assume "k \<in> set (map fst ?F)"
    then obtain c where kc: "(k, c) \<in> set (circles s)" and p: "c_hostUid c = uid"
        "startOfDay \<le> c_createdAt c"
      by auto
    from kc assms have "map_of (circles s) k = Some c" by simp
    moreover from kc have "k \<in> set (map fst (circles s))" by force
    ultimately show "k \<in> storedToday uid startOfDay s"
      using p by (simp add: storedToday_def)
  next
    fix k assume "k \<in> storedToday uid startOfDay s"
    then obtain c where m: "map_of (circles s) k = Some c" and p: "c_hostUid c = uid"
        "startOfDay \<le> c_createdAt c"
      by (auto simp: storedToday_def split: option.splits)
    from m have "(k, c) \<in> set (circles s)" by (rule map_of_SomeD)
    with p have "(k, c) \<in> set ?F" by simp
    then show "k \<in> set (map fst ?F)" by force
  qed
  then have "card (storedToday uid startOfDay s) = length (map fst ?F)"
    using distinct_card [OF d] by simp
  then show ?thesis by (simp add: F)
qed

lemma storedToday_update:
  "storedToday uid startOfDay (s\<lparr>circles := AList.update k c (circles s)\<rparr>)
     = (if c_hostUid c = uid \<and> startOfDay \<le> c_createdAt c
        then insert k (storedToday uid startOfDay s)
        else storedToday uid startOfDay s - {k})"
proof -
  have keys: "set (map fst (AList.update k c (circles s))) = insert k (set (map fst (circles s)))"
    by (simp add: dom_update [symmetric] dom_map_of_conv_image_fst [symmetric] update_conv')
  show ?thesis
    unfolding storedToday_def
    by (auto simp add: keys update_conv' simp del: set_map split: option.splits if_splits)
qed

lemma storedToday_delete:
  "storedToday uid startOfDay (s\<lparr>circles := AList.delete k (circles s)\<rparr>)
     = storedToday uid startOfDay s - {k}"
proof -
  have keys: "set (map fst (AList.delete k (circles s))) = set (map fst (circles s)) - {k}"
    by (auto simp: delete_filter)
  show ?thesis
    unfolding storedToday_def
    by (auto simp add: keys delete_conv simp del: set_map split: option.splits if_splits)
qed

lemma storedToday_cong:
  "circles s' = circles s \<Longrightarrow> storedToday uid startOfDay s' = storedToday uid startOfDay s"
  by (simp add: storedToday_def)

lemma createCircle_limited_card:
  assumes "uid \<noteq> []" and "distinct (map fst (circles s))"
  shows "(\<exists>msg. fst (createCircle e now startOfDay cid dto uid s) = Inl (BadRequestException msg))
           \<longleftrightarrow> 5 \<le> card (storedToday uid startOfDay s)"
  using createCircle_limited_iff [OF assms(1)] circlesCreatedSince_card [OF assms(2)] by simp

lemma snd_case_sum:
  "snd (case x of Inl a \<Rightarrow> (f a, s) | Inr b \<Rightarrow> (g b, s)) = s"
  by (cases x) simp_all

lemma createCircle_circles:
  assumes "uid \<noteq> []" and "\<not> 5 \<le> length (circlesCreatedSince uid startOfDay s)"
  shows "\<exists>c. circles (snd (createCircle e now startOfDay cid dto uid s))
               = AList.update cid c (circles s)
           \<and> c_hostUid c = uid \<and> c_createdAt c = now"
  using assms
  apply (simp add: createCircle_def Let_def snd_case_sum split del: if_split)
  apply (rule exI)
  apply (rule conjI)
   apply (rule refl)
  apply simp
  done

lemma createCircle_storedToday:
  assumes "uid \<noteq> []" and "\<not> 5 \<le> length (circlesCreatedSince uid startOfDay s)"
    and "startOfDay \<le> now"
  shows "storedToday uid startOfDay (snd (createCircle e now startOfDay cid dto uid s))
           = insert cid (storedToday uid startOfDay s)"
proof -
  obtain c where c: "c_hostUid c = uid" "c_createdAt c = now"
      "circles (snd (createCircle e now startOfDay cid dto uid s)) = AList.update cid c (circles s)"
    using createCircle_circles [OF assms(1,2), of e now cid dto] by blast
  have "storedToday uid startOfDay (snd (createCircle e now startOfDay cid dto uid s))
          = storedToday uid startOfDay (s\<lparr>circles := AList.update cid c (circles s)\<rparr>)"
    by (rule storedToday_cong) (simp add: c(3))
  then show ?thesis
    using c(1,2) assms(3) by (simp add: storedToday_update)
qed

lemma deleteCircle_storedToday:
  assumes "fst (deleteCircle k uid s) = Inr (k, True)"
  shows "storedToday uid' startOfDay (snd (deleteCircle k uid s))
           = storedToday uid' startOfDay s - {k}"
proof -
  have "circles (snd (deleteCircle k uid s)) = AList.delete k (circles s)"
    using assms by (auto simp: deleteCircle_def Let_def split: if_splits option.splits)
  then have "storedToday uid' startOfDay (snd (deleteCircle k uid s))
          = storedToday uid' startOfDay (s\<lparr>circles := AList.delete k (circles s)\<rparr>)"
    by (intro storedToday_cong) simp
  then show ?thesis by (simp add: storedToday_delete)
qed

section \<open>Claims\<close>

text \<open>
  C1. For a circle in status \<open>a\<close>, \<open>updateCircleStatus\<close> called by the host with requested
  status \<open>b\<close> succeeds exactly when \<open>b\<close> is in the transition table
  scheduled -> {live, ended}, live -> {ended}, ended -> {}. An invalid transition is
  rejected, leaving the store as it was, with an error whose message names the current
  and the requested status; a successful transition stores the new status, and one to
  \<open>ended\<close> stamps \<open>endedAt\<close> with the current time.
\<close>

theorem updateCircleStatus_table:
  assumes "map_of (circles s) cid = Some c" and "c_status c = a"
    and "c_hostUid c = uid" and "uid \<noteq> []"
  shows "((\<exists>r. fst (updateCircleStatus now cid b uid s) = Inr r) \<longleftrightarrow> b \<in> spec_table a)
    \<and> (b \<notin> spec_table a \<longrightarrow>
         updateCircleStatus now cid b uid s =
           (Inl (Error (''Invalid status transition from '' @ status_name a
                         @ '' to '' @ status_name b)), s))
    \<and> (b \<in> spec_table a \<longrightarrow>
         (\<exists>c'. map_of (circles (snd (updateCircleStatus now cid b uid s))) cid = Some c'
             \<and> c_status c' = b
             \<and> (b = Ended \<longrightarrow> c_endedAt c' = Some now)))"
  using assms
  by (simp add: updateCircleStatus_def isValidStatusTransition_table updateCircleDoc_Some
      update_Some_unfold)

theorem updateCircleStatus_table_witness:
  "map_of (circles (ex_state Scheduled [])) ''c1'' = Some (ex_circle Scheduled)
   \<and> map_of (circles (ex_state Ended [])) ''c1'' = Some (ex_circle Ended)
   \<and> c_status (ex_circle Scheduled) = Scheduled \<and> c_status (ex_circle Ended) = Ended
   \<and> c_hostUid (ex_circle Scheduled) = ''h'' \<and> c_hostUid (ex_circle Ended) = ''h''
   \<and> ''h'' \<noteq> []
   \<and> Ended \<in> spec_table Scheduled \<and> Live \<notin> spec_table Ended
   \<and> (\<exists>r. fst (updateCircleStatus 5000 ''c1'' Ended ''h'' (ex_state Scheduled [])) = Inr r)
   \<and> (\<exists>c'. map_of (circles (snd (updateCircleStatus 5000 ''c1'' Ended ''h''
                                        (ex_state Scheduled [])))) ''c1'' = Some c'
          \<and> c_status c' = Ended \<and> c_endedAt c' = Some 5000)
   \<and> updateCircleStatus 5000 ''c1'' Live ''h'' (ex_state Ended [])
       = (Inl (Error ''Invalid status transition from ended to live''), ex_state Ended [])"
proof -
  have h1: "map_of (circles (ex_state Scheduled [])) ''c1'' = Some (ex_circle Scheduled)"
    and g1: "map_of (circles (ex_state Ended [])) ''c1'' = Some (ex_circle Ended)"
    by (simp_all add: ex_state_def)
  have h2: "c_status (ex_circle Scheduled) = Scheduled"
    and g2: "c_status (ex_circle Ended) = Ended"
    and h3: "c_hostUid (ex_circle Scheduled) = ''h''"
    and g3: "c_hostUid (ex_circle Ended) = ''h''"
    by (simp_all add: ex_circle_def)
  have h4: "''h'' \<noteq> []" by simp
  have tab: "Ended \<in> spec_table Scheduled" "Live \<notin> spec_table Ended"
    by (simp_all add: spec_table_def)
  note ok = updateCircleStatus_table [OF h1 h2 h3 h4, of 5000 Ended]
  note bad = updateCircleStatus_table [OF g1 g2 g3 h4, of 5000 Live]
  have a: "\<exists>r. fst (updateCircleStatus 5000 ''c1'' Ended ''h'' (ex_state Scheduled [])) = Inr r"
    using conjunct1 [OF ok] tab(1) by blast
  have b: "\<exists>c'. map_of (circles (snd (updateCircleStatus 5000 ''c1'' Ended ''h''
                                        (ex_state Scheduled [])))) ''c1'' = Some c'
          \<and> c_status c' = Ended \<and> c_endedAt c' = Some 5000"
    using conjunct2 [OF conjunct2 [OF ok]] tab(1) by blast
  have c: "updateCircleStatus 5000 ''c1'' Live ''h'' (ex_state Ended [])
       = (Inl (Error ''Invalid status transition from ended to live''), ex_state Ended [])"
    using conjunct1 [OF conjunct2 [OF bad]] tab(2) by (simp add: status_name_def)
  show ?thesis
    using h1 g1 h2 g2 h3 g3 h4 tab a b c by blast
qed

text \<open>
  C2. The claim: after the host's \<open>participant_left\<close> event a join by the host before
  the deferred check sets the member's status back to \<open>active\<close>, so that the check
  is a no-op; a status still \<open>disconnected\<close> at fire time ends the circle with reason
  \<open>host_disconnected\<close>. The second half holds (\<open>hostDisconnectionTimeout_ends\<close>). The
  first does not: \<open>joinCircle\<close> changes a member record only when its status is \<open>left\<close>
  (\<open>joinCircle_not_left_unchanged\<close>), so the host's record stays \<open>disconnected\<close>. Here
  the host \<open>h\<close> of the live circle \<open>c1\<close> drops at time 10000, which arms the check for
  310000, and joins again at 20000, receiving a host token; the record is still
  \<open>disconnected\<close>, and the check at 310000 ends the circle with reason
  \<open>host_disconnected\<close>.
\<close>

theorem host_rejoin_circle_still_ended:
  "(\<exists>m. map_of (members (snd (handleEvent 10000
              (participantEvent ''participant_left'' ''c1'' ''h'') (ex_populated Live))))
            (''c1'', ''h'') = Some m \<and> m_status m = Some Disconnected)
   \<and> timers (snd (handleEvent 10000
              (participantEvent ''participant_left'' ''c1'' ''h'') (ex_populated Live)))
       = [(310000, ''c1'', ''h'')]
   \<and> (\<exists>tk. fst (joinCircle ex_env 20000 ''c1'' ''h'' None
              (snd (handleEvent 10000
                 (participantEvent ''participant_left'' ''c1'' ''h'') (ex_populated Live))))
           = Inr (tk, Host))
   \<and> (\<exists>m. map_of (members (snd (joinCircle ex_env 20000 ''c1'' ''h'' None
              (snd (handleEvent 10000
                 (participantEvent ''participant_left'' ''c1'' ''h'') (ex_populated Live))))))
            (''c1'', ''h'') = Some m \<and> m_status m = Some Disconnected)
   \<and> (\<exists>c. map_of (circles (fireTimers 310000 (snd (joinCircle ex_env 20000 ''c1'' ''h'' None
              (snd (handleEvent 10000
                 (participantEvent ''participant_left'' ''c1'' ''h'') (ex_populated Live)))))))
            ''c1'' = Some c
          \<and> c_status c = Ended \<and> c_endReason c = Some HostDisconnected
          \<and> c_endedAt c = Some 310000)"
proof -
  let ?s0 = "ex_populated Live"
  let ?m1 = "(ex_member Host (Some Active))
               \<lparr>m_status := Some Disconnected, m_disconnectedAt := Some 10000\<rparr>"
  let ?c1 = "(ex_circle Live)\<lparr>c_hostDisconnectedAt := Some 10000\<rparr>"
  let ?s1 = "?s0\<lparr>members := [((''c1'', ''h''), ?m1),
                                ((''c1'', ''u''), ex_member Listener (Some Active))],
                  circles := [(''c1'', ?c1)],
                  timers := [(310000, ''c1'', ''h'')]\<rparr>"
  have left: "handleEvent 10000 (participantEvent ''participant_left'' ''c1'' ''h'') ?s0
                = (Inr (), ?s1)"
    by (simp add: handleEvent_def participantEvent_def handleParticipantLeft_def falsy_def
        Let_def ex_populated_eval ex_users_def ex_circle_def handleHostDisconnection_def
        updateMemberDoc_def updateCircleDoc_def)
  have join: "joinCircle ex_env 20000 ''c1'' ''h'' None ?s1
                = (withRole Host (mintToken ex_env ''h'' ''c1'' Host (Some ''Hana'')), ?s1)"
    by (simp add: joinCircle_def ex_populated_eval ex_circle_def ex_member_def
        getFullName_def ex_users_def)
  have tk: "\<exists>tk. withRole Host (mintToken ex_env ''h'' ''c1'' Host (Some ''Hana''))
              = Inr (tk, Host)"
    by (simp add: withRole_def mintToken_def ex_env_def falsy_def)
  have fire: "\<exists>c. map_of (circles (fireTimers 310000 ?s1)) ''c1'' = Some c
          \<and> c_status c = Ended \<and> c_endReason c = Some HostDisconnected
          \<and> c_endedAt c = Some 310000"
    by (simp add: fireTimers_def hostDisconnectionTimeout_def
        endCircleDueToHostDisconnection_def updateCircleDoc_def ex_populated_eval)
  show ?thesis
    unfolding left snd_conv join fst_conv
    using tk fire by simp
qed

text \<open>
  C3 (amended). The claim: after every sequence of create, join, promote/demote and
  leave, exactly one member record of each circle has role \<open>host\<close>, the one of the
  circle's \<open>hostUid\<close>. \<open>promoteMember\<close> stores whatever role the request carries, so the
  claim holds for the sequences that keep the role of host in place
  (\<open>roleKeepingAll\<close>): circles are created under unused ids, no join requests the role
  \<open>host\<close>, and every promotion gives the role \<open>host\<close> to the circle's \<open>hostUid\<close> and to
  no one else. Starting from a store that satisfies the invariant (the empty store
  does), after such a sequence the invariant holds again: every stored circle has
  exactly one member record with role \<open>host\<close>, it is stored under the circle's
  \<open>hostUid\<close>, and no other member of the circle has that role.
\<close>

theorem one_host_kept:
  assumes "storeInvariant s" and "roleKeepingAll e s cmds"
    and "map_of (circles (performAll e cmds s)) cid = Some c"
  shows "storeInvariant (performAll e cmds s)
       \<and> hostMembers cid (members (performAll e cmds s)) = [c_hostUid c]
       \<and> (\<exists>m. map_of (members (performAll e cmds s)) (cid, c_hostUid c) = Some m
              \<and> m_role m = Host)
       \<and> (\<forall>u m. map_of (members (performAll e cmds s)) (cid, u) = Some m \<longrightarrow>
              (m_role m = Host) = (u = c_hostUid c))"
proof -
  let ?s = "performAll e cmds s"
  have inv: "storeInvariant ?s"
    using assms(1,2) by (rule performAll_keeps_invariant)
  then have one: "oneHost (circles ?s) (members ?s)"
    by (simp add: storeInvariant_def)
  have hm: "hostMembers cid (members ?s) = [c_hostUid c]"
    using one assms(3) unfolding oneHost_iff by blast
  have role: "(m_role m = Host) = (u = c_hostUid c)"
    if "map_of (members ?s) (cid, u) = Some m" for u m
    using one assms(3) that by (rule oneHost_role)
  obtain m where m: "map_of (members ?s) (cid, c_hostUid c) = Some m"
    using oneHost_host_stored [OF one assms(3)] by auto
  with role have "m_role m = Host" by blast
  with inv hm m role show ?thesis by blast
qed

theorem one_host_kept_witness:
  "storeInvariant emptyStore
   \<and> roleKeepingAll ex_env emptyStore ex_cmds
   \<and> map_of (circles (performAll ex_env ex_cmds emptyStore)) ''c1''
       = Some ((ex_circle Live)\<lparr>c_participantCount := Some 2\<rparr>)
   \<and> storeInvariant (performAll ex_env ex_cmds emptyStore)
   \<and> hostMembers ''c1'' (members (performAll ex_env ex_cmds emptyStore)) = [''h'']
   \<and> (\<exists>m. map_of (members (performAll ex_env ex_cmds emptyStore)) (''c1'', ''h'') = Some m
          \<and> m_role m = Host)"
proof -
  have h1: "storeInvariant emptyStore"
    by (simp add: storeInvariant_def oneHost_def emptyStore_def)
  have h2: "roleKeepingAll ex_env emptyStore ex_cmds"
    by code_simp
  have h3: "map_of (circles (performAll ex_env ex_cmds emptyStore)) ''c1''
       = Some ((ex_circle Live)\<lparr>c_participantCount := Some 2\<rparr>)"
    by code_simp
  have host: "c_hostUid ((ex_circle Live)\<lparr>c_participantCount := Some 2\<rparr>) = ''h''"
    by (simp add: ex_circle_def)
  note th = one_host_kept [OF h1 h2 h3]
  have a: "storeInvariant (performAll ex_env ex_cmds emptyStore)"
    using conjunct1 [OF th] .
  have b: "hostMembers ''c1'' (members (performAll ex_env ex_cmds emptyStore)) = [''h'']"
    using conjunct1 [OF conjunct2 [OF th]] unfolding host .
  have c: "\<exists>m. map_of (members (performAll ex_env ex_cmds emptyStore)) (''c1'', ''h'') = Some m
          \<and> m_role m = Host"
    using conjunct1 [OF conjunct2 [OF conjunct2 [OF th]]] unfolding host .
  show ?thesis
    using h1 h2 h3 a b c by blast
qed

text \<open>
  Without the restriction on promotions the invariant fails. After \<open>h\<close> creates \<open>c1\<close>
  and \<open>u\<close> joins, the invariant holds; promoting \<open>u\<close> to \<open>host\<close> leaves two member
  records with role \<open>host\<close>, and demoting \<open>h\<close> to \<open>listener\<close> leaves none.
\<close>

theorem promoteMember_breaks_one_host:
  "storeInvariant (performAll ex_env
       [Create 1000 0 ''c1'' ex_dto ''h'', Join 2000 ''c1'' ''u'' None] emptyStore)
   \<and> hostMembers ''c1'' (members (performAll ex_env
       [Create 1000 0 ''c1'' ex_dto ''h'', Join 2000 ''c1'' ''u'' None,
        Promote 3000 ''c1'' ''h'' ''u'' Host] emptyStore)) = [''h'', ''u'']
   \<and> \<not> storeInvariant (performAll ex_env
       [Create 1000 0 ''c1'' ex_dto ''h'', Join 2000 ''c1'' ''u'' None,
        Promote 3000 ''c1'' ''h'' ''u'' Host] emptyStore)
   \<and> hostMembers ''c1'' (members (performAll ex_env
       [Create 1000 0 ''c1'' ex_dto ''h'', Join 2000 ''c1'' ''u'' None,
        Promote 3000 ''c1'' ''h'' ''h'' Listener] emptyStore)) = []
   \<and> \<not> storeInvariant (performAll ex_env
       [Create 1000 0 ''c1'' ex_dto ''h'', Join 2000 ''c1'' ''u'' None,
        Promote 3000 ''c1'' ''h'' ''h'' Listener] emptyStore)"
  by code_simp

text \<open>
  C4. For a user who is not the host and whose member record has status \<open>left\<close>,
  \<open>joinCircle\<close> on a joinable (scheduled or live) circle reactivates the record: status
  becomes \<open>active\<close>, \<open>leftAt\<close> is cleared, \<open>rejoinCount\<close> grows by exactly 1 (an absent
  count is 0), \<open>lastRejoinAt\<close> and \<open>joinedAt\<close> are set to the current time and every other
  field of the record, in particular the role and the analytics counters, is as before;
  \<open>participantCount\<close> grows by 1; the token is minted for the member's stored role,
  whatever role the join request carries.
\<close>

theorem joinCircle_rejoin:
  assumes "map_of (circles s) cid = Some c" and "c_status c = Scheduled \<or> c_status c = Live"
    and "c_hostUid c \<noteq> uid" and "uid \<noteq> []"
    and "map_of (members s) (cid, uid) = Some m" and "m_status m = Some Left"
  shows "map_of (members (snd (joinCircle e now cid uid jr s))) (cid, uid)
           = Some (m\<lparr>m_status := Some Active,
                     m_leftAt := None,
                     m_rejoinCount :=
                       Some ((case m_rejoinCount m of None \<Rightarrow> 0 | Some n \<Rightarrow> n) + 1),
                     m_lastRejoinAt := Some now,
                     m_joinedAt := now\<rparr>)
       \<and> (\<exists>m'. map_of (members (snd (joinCircle e now cid uid jr s))) (cid, uid) = Some m'
             \<and> m_role m' = m_role m
             \<and> m_totalSpeakTime m' = m_totalSpeakTime m
             \<and> m_handRaiseCount m' = m_handRaiseCount m
             \<and> m_roleChangeCount m' = m_roleChangeCount m
             \<and> m_kickCount m' = m_kickCount m)
       \<and> map_of (circles (snd (joinCircle e now cid uid jr s))) cid
           = Some (c\<lparr>c_participantCount :=
                       Some ((case c_participantCount c of None \<Rightarrow> 0 | Some n \<Rightarrow> n) + 1)\<rparr>)
       \<and> fst (joinCircle e now cid uid jr s)
           = withRole (m_role m) (mintToken e uid cid (m_role m) (getFullName s uid))
       \<and> (\<not> falsy (LIVEKIT_API_KEY e) \<and> \<not> falsy (LIVEKIT_API_SECRET e) \<and> cid \<noteq> [] \<longrightarrow>
            (\<exists>tk. fst (joinCircle e now cid uid jr s) = Inr (tk, m_role m)
                \<and> canPublish tk = (m_role m = Host \<or> m_role m = Speaker)))"
  using assms
  by (auto simp add: joinCircle_def Let_def incrementParticipantCountField_Some
        updateMemberDoc_Some update_Some_unfold getFullName_def increment_def
        mintToken_def withRole_def)

theorem joinCircle_rejoin_witness:
  "map_of (circles (ex_state Live [(''u'', ex_member Speaker (Some Left))])) ''c1''
      = Some (ex_circle Live)
   \<and> (c_status (ex_circle Live) = Scheduled \<or> c_status (ex_circle Live) = Live)
   \<and> c_hostUid (ex_circle Live) \<noteq> ''u'' \<and> ''u'' \<noteq> []
   \<and> map_of (members (ex_state Live [(''u'', ex_member Speaker (Some Left))])) (''c1'', ''u'')
      = Some (ex_member Speaker (Some Left))
   \<and> m_status (ex_member Speaker (Some Left)) = Some Left
   \<and> \<not> falsy (LIVEKIT_API_KEY ex_env) \<and> \<not> falsy (LIVEKIT_API_SECRET ex_env) \<and> ''c1'' \<noteq> []
   \<and> (\<exists>m'. map_of (members (snd (joinCircle ex_env 2000 ''c1'' ''u'' (Some Listener)
                (ex_state Live [(''u'', ex_member Speaker (Some Left))])))) (''c1'', ''u'')
              = Some m'
          \<and> m_status m' = Some Active \<and> m_leftAt m' = None \<and> m_rejoinCount m' = Some 1
          \<and> m_lastRejoinAt m' = Some 2000 \<and> m_joinedAt m' = 2000
          \<and> m_role m' = Speaker \<and> m_totalSpeakTime m' = Some 700)
   \<and> (\<exists>c'. map_of (circles (snd (joinCircle ex_env 2000 ''c1'' ''u'' (Some Listener)
                (ex_state Live [(''u'', ex_member Speaker (Some Left))])))) ''c1'' = Some c'
          \<and> c_participantCount c' = Some 2)
   \<and> (\<exists>tk. fst (joinCircle ex_env 2000 ''c1'' ''u'' (Some Listener)
                (ex_state Live [(''u'', ex_member Speaker (Some Left))])) = Inr (tk, Speaker)
          \<and> canPublish tk)"
proof -
  let ?s = "ex_state Live [(''u'', ex_member Speaker (Some Left))]"
  have h1: "map_of (circles ?s) ''c1'' = Some (ex_circle Live)"
    and h5: "map_of (members ?s) (''c1'', ''u'') = Some (ex_member Speaker (Some Left))"
    by (simp_all add: ex_state_def)
  have h2: "c_status (ex_circle Live) = Scheduled \<or> c_status (ex_circle Live) = Live"
    and h3: "c_hostUid (ex_circle Live) \<noteq> ''u''"
    and cnt: "c_participantCount (ex_circle Live) = Some 1"
    by (simp_all add: ex_circle_def)
  have h4: "''u'' \<noteq> []" by simp
  have h6: "m_status (ex_member Speaker (Some Left)) = Some Left"
    and mf: "m_rejoinCount (ex_member Speaker (Some Left)) = Some 0"
      "m_role (ex_member Speaker (Some Left)) = Speaker"
      "m_totalSpeakTime (ex_member Speaker (Some Left)) = Some 700"
    by (simp_all add: ex_member_def)
  have creds: "\<not> falsy (LIVEKIT_API_KEY ex_env)" "\<not> falsy (LIVEKIT_API_SECRET ex_env)"
    by (simp_all add: ex_env_def falsy_def)
  note th = joinCircle_rejoin [OF h1 h2 h3 h4 h5 h6, of ex_env 2000 "Some Listener"]
  have a: "\<exists>m'. map_of (members (snd (joinCircle ex_env 2000 ''c1'' ''u'' (Some Listener) ?s)))
                (''c1'', ''u'') = Some m'
          \<and> m_status m' = Some Active \<and> m_leftAt m' = None \<and> m_rejoinCount m' = Some 1
          \<and> m_lastRejoinAt m' = Some 2000 \<and> m_joinedAt m' = 2000
          \<and> m_role m' = Speaker \<and> m_totalSpeakTime m' = Some 700"
    using conjunct1 [OF th] mf by simp
  have b: "\<exists>c'. map_of (circles (snd (joinCircle ex_env 2000 ''c1'' ''u'' (Some Listener) ?s)))
                ''c1'' = Some c' \<and> c_participantCount c' = Some 2"
    using conjunct1 [OF conjunct2 [OF conjunct2 [OF th]]] cnt by simp
  have c: "\<exists>tk. fst (joinCircle ex_env 2000 ''c1'' ''u'' (Some Listener) ?s) = Inr (tk, Speaker)
          \<and> canPublish tk"
    using conjunct2 [OF conjunct2 [OF conjunct2 [OF conjunct2 [OF th]]]] creds mf(2) by simp
  show ?thesis
    using h1 h2 h3 h4 h5 h6 creds a b c by simp
qed

text \<open>
  C5. When the host joins their own scheduled circle and has no member record,
  \<open>joinCircle\<close> stores a member record for the host with role \<open>host\<close> and status
  \<open>active\<close>, raises \<open>participantCount\<close> by exactly 1 (an absent count is 0) and
  answers with the host token. A second call by the host on the resulting store
  answers with the host token again and leaves the store as it is: no record is
  created and \<open>participantCount\<close> is not raised again. With the LiveKit credentials
  configured the second call returns a token for the host with role \<open>host\<close>.
\<close>

theorem joinCircle_host_scheduled:
  assumes "map_of (circles s) cid = Some c" and "c_status c = Scheduled"
    and "c_hostUid c = uid" and "uid \<noteq> []" and "map_of (members s) (cid, uid) = None"
  shows "(\<exists>m. map_of (members (snd (joinCircle e now cid uid jr s))) (cid, uid) = Some m
            \<and> m_role m = Host \<and> m_status m = Some Active)
       \<and> (\<exists>c'. map_of (circles (snd (joinCircle e now cid uid jr s))) cid = Some c'
            \<and> c_participantCount c'
                = Some ((case c_participantCount c of None \<Rightarrow> 0 | Some n \<Rightarrow> n) + 1))
       \<and> fst (joinCircle e now cid uid jr s)
            = withRole Host (mintToken e uid cid Host (getFullName s uid))
       \<and> joinCircle e' now' cid uid jr' (snd (joinCircle e now cid uid jr s))
            = (withRole Host (mintToken e' uid cid Host (getFullName s uid)),
               snd (joinCircle e now cid uid jr s))
       \<and> (\<not> falsy (LIVEKIT_API_KEY e') \<and> \<not> falsy (LIVEKIT_API_SECRET e') \<and> cid \<noteq> [] \<longrightarrow>
            (\<exists>tk. fst (joinCircle e' now' cid uid jr' (snd (joinCircle e now cid uid jr s)))
                     = Inr (tk, Host) \<and> identity tk = uid \<and> room tk = cid \<and> roomAdmin tk))"
proof -
  let ?s1 = "snd (joinCircle e now cid uid jr s)"
  have c2: "fst (joinCircle e now cid uid jr s)
      = withRole Host (mintToken e uid cid Host (getFullName s uid))"
    and s1: "map_of (circles ?s1) cid
         = Some (c\<lparr>c_participantCount := increment 1 (c_participantCount c)\<rparr>)"
       "\<exists>m. map_of (members ?s1) (cid, uid) = Some m \<and> m_role m = Host \<and> m_status m = Some Active"
       "users ?s1 = users s"
    using assms
    by (simp_all add: joinCircle_def Let_def incrementParticipantCountField_Some
        update_Some_unfold getFullName_def)
  have second: "joinCircle e' now' cid uid jr' ?s1
      = (withRole Host (mintToken e' uid cid Host (getFullName s uid)), ?s1)"
    using s1 assms(2-4)
    by (auto simp add: joinCircle_def [of e' now' cid uid jr' ?s1] Let_def getFullName_def)
  have c1: "\<exists>c'. map_of (circles ?s1) cid = Some c'
            \<and> c_participantCount c'
                = Some ((case c_participantCount c of None \<Rightarrow> 0 | Some n \<Rightarrow> n) + 1)"
    using s1(1) by (simp add: increment_def)
  have c3: "\<not> falsy (LIVEKIT_API_KEY e') \<and> \<not> falsy (LIVEKIT_API_SECRET e') \<and> cid \<noteq> [] \<longrightarrow>
            (\<exists>tk. fst (joinCircle e' now' cid uid jr' ?s1)
                     = Inr (tk, Host) \<and> identity tk = uid \<and> room tk = cid \<and> roomAdmin tk)"
    using assms(4) by (simp add: second mintToken_def withRole_def)
  show ?thesis
    using s1(2) c1 c2 second c3 by blast
qed

theorem joinCircle_host_scheduled_witness:
  "map_of (circles (ex_state Scheduled [])) ''c1'' = Some (ex_circle Scheduled)
   \<and> c_status (ex_circle Scheduled) = Scheduled
   \<and> c_hostUid (ex_circle Scheduled) = ''h'' \<and> ''h'' \<noteq> []
   \<and> map_of (members (ex_state Scheduled [])) (''c1'', ''h'') = None
   \<and> c_participantCount (ex_circle Scheduled) = Some 1
   \<and> \<not> falsy (LIVEKIT_API_KEY ex_env) \<and> \<not> falsy (LIVEKIT_API_SECRET ex_env) \<and> ''c1'' \<noteq> []
   \<and> (\<exists>m. map_of (members (snd (joinCircle ex_env 2000 ''c1'' ''h'' None
                                    (ex_state Scheduled [])))) (''c1'', ''h'') = Some m
          \<and> m_role m = Host \<and> m_status m = Some Active)
   \<and> (\<exists>c'. map_of (circles (snd (joinCircle ex_env 2000 ''c1'' ''h'' None
                                     (ex_state Scheduled [])))) ''c1'' = Some c'
          \<and> c_participantCount c' = Some 2)
   \<and> snd (joinCircle ex_env 3000 ''c1'' ''h'' None
             (snd (joinCircle ex_env 2000 ''c1'' ''h'' None (ex_state Scheduled []))))
       = snd (joinCircle ex_env 2000 ''c1'' ''h'' None (ex_state Scheduled []))
   \<and> (\<exists>tk. fst (joinCircle ex_env 3000 ''c1'' ''h'' None
                   (snd (joinCircle ex_env 2000 ''c1'' ''h'' None (ex_state Scheduled []))))
              = Inr (tk, Host))"
proof -
  have h1: "map_of (circles (ex_state Scheduled [])) ''c1'' = Some (ex_circle Scheduled)"
    and h5: "map_of (members (ex_state Scheduled [])) (''c1'', ''h'') = None"
    by (simp_all add: ex_state_def)
  have h2: "c_status (ex_circle Scheduled) = Scheduled"
    and h3: "c_hostUid (ex_circle Scheduled) = ''h''"
    and cnt: "c_participantCount (ex_circle Scheduled) = Some 1"
    by (simp_all add: ex_circle_def)
  have h4: "''h'' \<noteq> []" by simp
  have creds: "\<not> falsy (LIVEKIT_API_KEY ex_env)" "\<not> falsy (LIVEKIT_API_SECRET ex_env)"
    by (simp_all add: ex_env_def falsy_def)
  show ?thesis
    using joinCircle_host_scheduled [OF h1 h2 h3 h4 h5, of ex_env 2000 None ex_env 3000 None]
      h1 h2 h3 h5 cnt creds
    by auto
qed

text \<open>
  C6. The claim: a \<open>participant_joined\<close> event for a known user raises
  \<open>participantCount\<close> exactly when the member record is absent or not counted as
  active, an absent or null status counting as active, so that an existing member
  without a status is not counted again. \<open>incrementParticipantCount\<close> compares the status
  with \<open>'active'\<close> only (\<open>participant_joined_increments_iff\<close>), while \<open>getCircleDetails\<close>
  lists a member without a status as active. Here the member \<open>u\<close> of the live circle
  \<open>c1\<close> has no status and is listed as active; the event for \<open>u\<close> raises
  \<open>participantCount\<close> from 1 to 2.
\<close>

theorem participant_joined_null_status_counted:
  "map_of (members (ex_state Live [(''u'', ex_member Listener None)])) (''c1'', ''u'')
     = Some (ex_member Listener None)
   \<and> m_status (ex_member Listener None) = None
   \<and> listedAsActive (ex_member Listener None)
   \<and> map_of (users (ex_state Live [(''u'', ex_member Listener None)])) ''u''
       = Some \<lparr>fullName = None\<rparr>
   \<and> map_of (circles (ex_state Live [(''u'', ex_member Listener None)])) ''c1''
       = Some (ex_circle Live)
   \<and> c_participantCount (ex_circle Live) = Some 1
   \<and> handleEvent 10000 (participantEvent ''participant_joined'' ''c1'' ''u'')
         (ex_state Live [(''u'', ex_member Listener None)])
       = (Inr (),
          (ex_state Live [(''u'', ex_member Listener None)])
            \<lparr>circles := [(''c1'', (ex_circle Live)\<lparr>c_participantCount := Some 2\<rparr>)]\<rparr>)"
  by (simp add: handleEvent_def handleParticipantJoined_def participantEvent_def falsy_def
      Let_def incrementParticipantCount_def incrementParticipantCountField_def
      updateCircleDoc_def increment_def listedAsActive_def
      ex_state_def ex_users_def ex_member_def ex_circle_def)

text \<open>
  C7. For a member whose user is known, an audio \<open>track_published\<close> event stamps
  \<open>lastSpokeAt\<close> with the time of the event; an audio \<open>track_unpublished\<close> event on a
  member with \<open>lastSpokeAt\<close> set adds the time elapsed since then to \<open>totalSpeakTime\<close>
  (an absent total is 0) and clears \<open>lastSpokeAt\<close>. After publish at \<open>t1\<close> and unpublish
  at \<open>t2\<close> the total has grown by \<open>t2 - t1\<close>, so by at least 2000 when the two are
  2000 ms or more apart. A video track event changes nothing.
\<close>

theorem speaking_time_accounting:
  assumes "rm \<noteq> []" and "uid \<noteq> []" and "map_of (users s) uid = Some u"
    and "map_of (members s) (rm, uid) = Some m"
  shows "handleEvent t1 (trackEvent ''track_published'' rm uid AUDIO) s
           = (Inr (), s\<lparr>members :=
                AList.update (rm, uid) (m\<lparr>m_lastSpokeAt := Some t1\<rparr>) (members s)\<rparr>)
       \<and> (m_lastSpokeAt m = Some t0 \<longrightarrow>
            handleEvent t2 (trackEvent ''track_unpublished'' rm uid AUDIO) s
              = (Inr (), s\<lparr>members := AList.update (rm, uid)
                   (m\<lparr>m_totalSpeakTime :=
                        Some ((case m_totalSpeakTime m of None \<Rightarrow> 0 | Some n \<Rightarrow> n) + (t2 - t0)),
                      m_lastSpokeAt := None\<rparr>) (members s)\<rparr>))
       \<and> (\<exists>m'. map_of (members (snd (handleEvent t2 (trackEvent ''track_unpublished'' rm uid AUDIO)
                   (snd (handleEvent t1 (trackEvent ''track_published'' rm uid AUDIO) s)))))
                 (rm, uid) = Some m'
             \<and> m_lastSpokeAt m' = None
             \<and> m_totalSpeakTime m'
                 = Some ((case m_totalSpeakTime m of None \<Rightarrow> 0 | Some n \<Rightarrow> n) + (t2 - t1))
             \<and> (t1 + 2000 \<le> t2 \<longrightarrow>
                  (\<exists>n'. m_totalSpeakTime m' = Some n'
                     \<and> (case m_totalSpeakTime m of None \<Rightarrow> 0 | Some n \<Rightarrow> n) + 2000 \<le> n')))
       \<and> handleEvent t1 (trackEvent ''track_published'' rm uid VIDEO) s = (Inr (), s)
       \<and> handleEvent t2 (trackEvent ''track_unpublished'' rm uid VIDEO) s = (Inr (), s)"
proof -
  let ?s1 = "s\<lparr>members := AList.update (rm, uid) (m\<lparr>m_lastSpokeAt := Some t1\<rparr>) (members s)\<rparr>"
  have pub: "handleEvent t1 (trackEvent ''track_published'' rm uid AUDIO) s = (Inr (), ?s1)"
    using assms by (simp add: handleEvent_track_published startSpeakingTime_member)
  have unpub: "m_lastSpokeAt m = Some t0 \<longrightarrow>
            handleEvent t2 (trackEvent ''track_unpublished'' rm uid AUDIO) s
              = (Inr (), s\<lparr>members := AList.update (rm, uid)
                   (m\<lparr>m_totalSpeakTime :=
                        Some ((case m_totalSpeakTime m of None \<Rightarrow> 0 | Some n \<Rightarrow> n) + (t2 - t0)),
                      m_lastSpokeAt := None\<rparr>) (members s)\<rparr>)"
    using assms by (simp add: handleEvent_track_unpublished endSpeakingTime_member)
  have m1: "map_of (members ?s1) (rm, uid) = Some (m\<lparr>m_lastSpokeAt := Some t1\<rparr>)"
    and u1: "map_of (users ?s1) uid = Some u"
    using assms by (simp_all add: update_Some_unfold)
  have seq: "handleEvent t2 (trackEvent ''track_unpublished'' rm uid AUDIO) ?s1
       = (Inr (), ?s1\<lparr>members := AList.update (rm, uid)
                   (m\<lparr>m_lastSpokeAt := Some t1,
                      m_totalSpeakTime :=
                        Some ((case m_totalSpeakTime m of None \<Rightarrow> 0 | Some n \<Rightarrow> n) + (t2 - t1)),
                      m_lastSpokeAt := None\<rparr>) (members ?s1)\<rparr>)"
    using assms(1,2) u1 m1
    by (simp add: handleEvent_track_unpublished endSpeakingTime_member [OF m1])
  have both: "\<exists>m'. map_of (members (snd (handleEvent t2 (trackEvent ''track_unpublished'' rm uid AUDIO)
                   (snd (handleEvent t1 (trackEvent ''track_published'' rm uid AUDIO) s)))))
                 (rm, uid) = Some m'
             \<and> m_lastSpokeAt m' = None
             \<and> m_totalSpeakTime m'
                 = Some ((case m_totalSpeakTime m of None \<Rightarrow> 0 | Some n \<Rightarrow> n) + (t2 - t1))
             \<and> (t1 + 2000 \<le> t2 \<longrightarrow>
                  (\<exists>n'. m_totalSpeakTime m' = Some n'
                     \<and> (case m_totalSpeakTime m of None \<Rightarrow> 0 | Some n \<Rightarrow> n) + 2000 \<le> n'))"
    unfolding pub snd_conv seq by (simp add: update_Some_unfold)
  have video: "handleEvent t1 (trackEvent ''track_published'' rm uid VIDEO) s = (Inr (), s)"
    "handleEvent t2 (trackEvent ''track_unpublished'' rm uid VIDEO) s = (Inr (), s)"
    using assms by (simp_all add: handleEvent_track_published handleEvent_track_unpublished)
  show ?thesis
    using pub unpub both video by blast
qed

theorem speaking_time_accounting_witness:
  "''c1'' \<noteq> [] \<and> ''u'' \<noteq> []
   \<and> map_of (users (ex_populated Live)) ''u'' = Some \<lparr>fullName = None\<rparr>
   \<and> map_of (members (ex_populated Live)) (''c1'', ''u'') = Some (ex_member Listener (Some Active))
   \<and> m_totalSpeakTime (ex_member Listener (Some Active)) = Some 700
   \<and> (10000 :: int) + 2000 \<le> 12000
   \<and> (\<exists>m'. map_of (members (snd (handleEvent 10000
                 (trackEvent ''track_published'' ''c1'' ''u'' AUDIO) (ex_populated Live))))
               (''c1'', ''u'') = Some m'
          \<and> m_lastSpokeAt m' = Some 10000 \<and> m_totalSpeakTime m' = Some 700)
   \<and> (\<exists>m'. map_of (members (snd (handleEvent 12000
                 (trackEvent ''track_unpublished'' ''c1'' ''u'' AUDIO)
                 (snd (handleEvent 10000 (trackEvent ''track_published'' ''c1'' ''u'' AUDIO)
                         (ex_populated Live))))))
               (''c1'', ''u'') = Some m'
          \<and> m_lastSpokeAt m' = None \<and> m_totalSpeakTime m' = Some 2700)
   \<and> handleEvent 10000 (trackEvent ''track_published'' ''c1'' ''u'' VIDEO) (ex_populated Live)
       = (Inr (), ex_populated Live)
   \<and> map_of (members (ex_state Live [(''u'', (ex_member Speaker (Some Active))\<lparr>m_lastSpokeAt := Some 9000\<rparr>)]))
        (''c1'', ''u'') = Some ((ex_member Speaker (Some Active))\<lparr>m_lastSpokeAt := Some 9000\<rparr>)
   \<and> m_lastSpokeAt ((ex_member Speaker (Some Active))\<lparr>m_lastSpokeAt := Some 9000\<rparr>) = Some 9000
   \<and> (\<exists>m'. map_of (members (snd (handleEvent 12000
                 (trackEvent ''track_unpublished'' ''c1'' ''u'' AUDIO)
                 (ex_state Live [(''u'', (ex_member Speaker (Some Active))\<lparr>m_lastSpokeAt := Some 9000\<rparr>)]))))
               (''c1'', ''u'') = Some m'
          \<and> m_lastSpokeAt m' = None \<and> m_totalSpeakTime m' = Some 3700)"
proof -
  let ?m = "ex_member Listener (Some Active)"
  let ?m2 = "(ex_member Speaker (Some Active))\<lparr>m_lastSpokeAt := Some 9000\<rparr>"
  let ?s2 = "ex_state Live [(''u'', ?m2)]"
  have h1: "''c1'' \<noteq> []" and h2: "''u'' \<noteq> []" by simp_all
  have h3: "map_of (users (ex_populated Live)) ''u'' = Some \<lparr>fullName = None\<rparr>"
    and h4: "map_of (members (ex_populated Live)) (''c1'', ''u'') = Some ?m"
    by (simp_all add: ex_populated_eval ex_users_def)
  have g3: "map_of (users ?s2) ''u'' = Some \<lparr>fullName = None\<rparr>"
    and g4: "map_of (members ?s2) (''c1'', ''u'') = Some ?m2"
    by (simp_all add: ex_state_def ex_users_def)
  have tot: "m_totalSpeakTime ?m = Some 700" "m_totalSpeakTime ?m2 = Some 700"
    and g5: "m_lastSpokeAt ?m2 = Some 9000"
    by (simp_all add: ex_member_def)
  have gap: "(10000 :: int) + 2000 \<le> 12000" by simp
  note th = speaking_time_accounting [OF h1 h2 h3 h4, of 10000 0 12000]
  note th2 = speaking_time_accounting [OF h1 h2 g3 g4, of 10000 9000 12000]
  have a: "\<exists>m'. map_of (members (snd (handleEvent 10000
                 (trackEvent ''track_published'' ''c1'' ''u'' AUDIO) (ex_populated Live))))
               (''c1'', ''u'') = Some m'
          \<and> m_lastSpokeAt m' = Some 10000 \<and> m_totalSpeakTime m' = Some 700"
    using conjunct1 [OF th] h4 tot by (simp add: update_Some_unfold)
  have b: "\<exists>m'. map_of (members (snd (handleEvent 12000
                 (trackEvent ''track_unpublished'' ''c1'' ''u'' AUDIO)
                 (snd (handleEvent 10000 (trackEvent ''track_published'' ''c1'' ''u'' AUDIO)
                         (ex_populated Live))))))
               (''c1'', ''u'') = Some m'
          \<and> m_lastSpokeAt m' = None \<and> m_totalSpeakTime m' = Some 2700"
    using conjunct1 [OF conjunct2 [OF conjunct2 [OF th]]] tot by auto
  have c: "handleEvent 10000 (trackEvent ''track_published'' ''c1'' ''u'' VIDEO) (ex_populated Live)
       = (Inr (), ex_populated Live)"
    using conjunct1 [OF conjunct2 [OF conjunct2 [OF conjunct2 [OF th]]]] .
  have d: "\<exists>m'. map_of (members (snd (handleEvent 12000
                 (trackEvent ''track_unpublished'' ''c1'' ''u'' AUDIO) ?s2)))
               (''c1'', ''u'') = Some m'
          \<and> m_lastSpokeAt m' = None \<and> m_totalSpeakTime m' = Some 3700"
    using conjunct1 [OF conjunct2 [OF th2]] g4 g5 tot by (simp add: update_Some_unfold)
  show ?thesis
    using h1 h2 h3 h4 g4 g5 tot(1) gap a b c d by simp
qed

text \<open>
  C8 (amended). The claim: \<open>createCircle\<close> fails with the bad-request error "Daily limit
  reached" when the requester has already created 5 or more circles since local
  midnight. The quota query counts the circle documents stored at the time of the
  call, so the claim holds of those: for a (non-empty) requester and a store with unique
  document ids, the call fails with that error, leaving the store as it was, when 5 or
  more stored circles are hosted by the requester with \<open>createdAt\<close> not before local
  midnight (\<open>startOfDay\<close>); with fewer than 5 it never fails with that error, succeeds
  when the token can be minted, and the new circle is then counted. A circle created
  before \<open>startOfDay\<close> does not count, and neither does a circle created today that has
  been hard-deleted since.
\<close>

theorem createCircle_daily_limit:
  assumes "uid \<noteq> []" and "distinct (map fst (circles s))"
  shows "(5 \<le> card (storedToday uid startOfDay s) \<longrightarrow>
            createCircle e now startOfDay cid dto uid s
              = (Inl (BadRequestException
                        ''Daily limit reached: You can only create 5 circles per day.''), s))
       \<and> (card (storedToday uid startOfDay s) < 5 \<longrightarrow>
            (\<forall>msg. fst (createCircle e now startOfDay cid dto uid s)
                     \<noteq> Inl (BadRequestException msg)))
       \<and> (card (storedToday uid startOfDay s) < 5
            \<and> \<not> falsy (LIVEKIT_API_KEY e) \<and> \<not> falsy (LIVEKIT_API_SECRET e) \<and> cid \<noteq> [] \<longrightarrow>
            (\<exists>tk c. fst (createCircle e now startOfDay cid dto uid s) = Inr (cid, tk, c)
                \<and> c_hostUid c = uid \<and> c_createdAt c = now
                \<and> map_of (circles (snd (createCircle e now startOfDay cid dto uid s))) cid = Some c))
       \<and> (card (storedToday uid startOfDay s) < 5 \<and> startOfDay \<le> now \<longrightarrow>
            storedToday uid startOfDay (snd (createCircle e now startOfDay cid dto uid s))
              = insert cid (storedToday uid startOfDay s))
       \<and> (c_createdAt old < startOfDay \<and> k \<notin> fst ` set (circles s) \<longrightarrow>
            storedToday uid startOfDay (s\<lparr>circles := AList.update k old (circles s)\<rparr>)
              = storedToday uid startOfDay s
          \<and> ((\<exists>msg. fst (createCircle e now startOfDay cid dto uid
                             (s\<lparr>circles := AList.update k old (circles s)\<rparr>))
                       = Inl (BadRequestException msg))
               \<longleftrightarrow> (\<exists>msg. fst (createCircle e now startOfDay cid dto uid s)
                       = Inl (BadRequestException msg))))
       \<and> (fst (deleteCircle k uid s) = Inr (k, True) \<longrightarrow>
            storedToday uid startOfDay (snd (deleteCircle k uid s))
              = storedToday uid startOfDay s - {k})"
proof -
  note len = circlesCreatedSince_card [OF assms(2), of uid startOfDay]
  have a: "5 \<le> card (storedToday uid startOfDay s) \<longrightarrow>
            createCircle e now startOfDay cid dto uid s
              = (Inl (BadRequestException
                        ''Daily limit reached: You can only create 5 circles per day.''), s)"
    using assms(1) by (simp add: createCircle_def len)
  have b: "card (storedToday uid startOfDay s) < 5 \<longrightarrow>
            (\<forall>msg. fst (createCircle e now startOfDay cid dto uid s)
                     \<noteq> Inl (BadRequestException msg))"
    using createCircle_limited_card [OF assms, of e now startOfDay cid dto] by auto
  have c: "card (storedToday uid startOfDay s) < 5
            \<and> \<not> falsy (LIVEKIT_API_KEY e) \<and> \<not> falsy (LIVEKIT_API_SECRET e) \<and> cid \<noteq> [] \<longrightarrow>
            (\<exists>tk c. fst (createCircle e now startOfDay cid dto uid s) = Inr (cid, tk, c)
                \<and> c_hostUid c = uid \<and> c_createdAt c = now
                \<and> map_of (circles (snd (createCircle e now startOfDay cid dto uid s))) cid = Some c)"
    using assms(1) by (simp add: createCircle_def Let_def mintToken_def update_Some_unfold len)
  have d: "card (storedToday uid startOfDay s) < 5 \<and> startOfDay \<le> now \<longrightarrow>
            storedToday uid startOfDay (snd (createCircle e now startOfDay cid dto uid s))
              = insert cid (storedToday uid startOfDay s)"
    using createCircle_storedToday [OF assms(1), of startOfDay s now e cid dto] len by auto
  have f: "c_createdAt old < startOfDay \<and> k \<notin> fst ` set (circles s) \<longrightarrow>
            storedToday uid startOfDay (s\<lparr>circles := AList.update k old (circles s)\<rparr>)
              = storedToday uid startOfDay s
          \<and> ((\<exists>msg. fst (createCircle e now startOfDay cid dto uid
                             (s\<lparr>circles := AList.update k old (circles s)\<rparr>))
                       = Inl (BadRequestException msg))
               \<longleftrightarrow> (\<exists>msg. fst (createCircle e now startOfDay cid dto uid s)
                       = Inl (BadRequestException msg)))"
  proof (intro impI)
    assume h: "c_createdAt old < startOfDay \<and> k \<notin> fst ` set (circles s)"
    then have "k \<notin> storedToday uid startOfDay s"
      by (simp add: storedToday_def)
    then have "storedToday uid startOfDay s - {k} = storedToday uid startOfDay s"
      by simp
    with h have 1: "storedToday uid startOfDay (s\<lparr>circles := AList.update k old (circles s)\<rparr>)
              = storedToday uid startOfDay s"
      by (simp add: storedToday_update)
    have 2: "(\<exists>msg. fst (createCircle e now startOfDay cid dto uid
                             (s\<lparr>circles := AList.update k old (circles s)\<rparr>))
                       = Inl (BadRequestException msg))
               \<longleftrightarrow> (\<exists>msg. fst (createCircle e now startOfDay cid dto uid s)
                       = Inl (BadRequestException msg))"
      using h by (simp add: createCircle_limited_iff [OF assms(1)] circlesCreatedSince_old)
    from 1 2 show "storedToday uid startOfDay (s\<lparr>circles := AList.update k old (circles s)\<rparr>)
              = storedToday uid startOfDay s
          \<and> ((\<exists>msg. fst (createCircle e now startOfDay cid dto uid
                             (s\<lparr>circles := AList.update k old (circles s)\<rparr>))
                       = Inl (BadRequestException msg))
               \<longleftrightarrow> (\<exists>msg. fst (createCircle e now startOfDay cid dto uid s)
                       = Inl (BadRequestException msg)))"
      by (rule conjI)
  qed
  have g: "fst (deleteCircle k uid s) = Inr (k, True) \<longrightarrow>
            storedToday uid startOfDay (snd (deleteCircle k uid s))
              = storedToday uid startOfDay s - {k}"
    by (simp add: deleteCircle_storedToday)
  show ?thesis using a b c d f g by blast
qed

theorem createCircle_daily_limit_witness:
  "''h'' \<noteq> []
   \<and> distinct (map fst (circles (ex_quota [''a'', ''b'', ''c'', ''d'', ''e''])))
   \<and> distinct (map fst (circles (ex_quota [''a'', ''b'', ''c'', ''d''])))
   \<and> distinct (map fst (circles ex_five))
   \<and> 5 \<le> card (storedToday ''h'' 86400000 (ex_quota [''a'', ''b'', ''c'', ''d'', ''e'']))
   \<and> card (storedToday ''h'' 86400000 (ex_quota [''a'', ''b'', ''c'', ''d''])) < 5
   \<and> length (circles (ex_quota [''a'', ''b'', ''c'', ''d''])) = 5
   \<and> \<not> falsy (LIVEKIT_API_KEY ex_env) \<and> \<not> falsy (LIVEKIT_API_SECRET ex_env) \<and> ''new'' \<noteq> []
   \<and> (86400000 :: int) \<le> 95000000
   \<and> c_createdAt ((ex_circle Live)\<lparr>c_createdAt := 86399999\<rparr>) < 86400000
   \<and> ''z'' \<notin> fst ` set (circles (ex_quota [''a'', ''b'', ''c'', ''d'']))
   \<and> fst (deleteCircle ''a'' ''h'' ex_five) = Inr (''a'', True)
   \<and> createCircle ex_env 95000000 86400000 ''new'' ex_dto ''h''
         (ex_quota [''a'', ''b'', ''c'', ''d'', ''e''])
       = (Inl (BadRequestException
                 ''Daily limit reached: You can only create 5 circles per day.''),
          ex_quota [''a'', ''b'', ''c'', ''d'', ''e''])
   \<and> (\<exists>tk c. fst (createCircle ex_env 95000000 86400000 ''new'' ex_dto ''h''
                     (ex_quota [''a'', ''b'', ''c'', ''d''])) = Inr (''new'', tk, c))
   \<and> storedToday ''h'' 86400000
         (snd (createCircle ex_env 95000000 86400000 ''new'' ex_dto ''h''
                 (ex_quota [''a'', ''b'', ''c'', ''d''])))
       = insert ''new'' (storedToday ''h'' 86400000 (ex_quota [''a'', ''b'', ''c'', ''d'']))
   \<and> storedToday ''h'' 86400000
         ((ex_quota [''a'', ''b'', ''c'', ''d''])
            \<lparr>circles := AList.update ''z'' ((ex_circle Live)\<lparr>c_createdAt := 86399999\<rparr>)
                          (circles (ex_quota [''a'', ''b'', ''c'', ''d'']))\<rparr>)
       = storedToday ''h'' 86400000 (ex_quota [''a'', ''b'', ''c'', ''d''])
   \<and> storedToday ''h'' 86400000 (snd (deleteCircle ''a'' ''h'' ex_five))
       = storedToday ''h'' 86400000 ex_five - {''a''}"
proof -
  let ?s5 = "ex_quota [''a'', ''b'', ''c'', ''d'', ''e'']"
  let ?s4 = "ex_quota [''a'', ''b'', ''c'', ''d'']"
  let ?old = "(ex_circle Live)\<lparr>c_createdAt := 86399999\<rparr>"
  have h: "''h'' \<noteq> []" and n: "''new'' \<noteq> []" by simp_all
  have d5: "distinct (map fst (circles ?s5))" and d4: "distinct (map fst (circles ?s4))"
    by (simp_all add: ex_quota_def ex_created_def)
  have dd: "distinct (map fst (circles ex_five))" by code_simp
  have five: "5 \<le> card (storedToday ''h'' 86400000 ?s5)"
    using circlesCreatedSince_card [OF d5, of "''h''" 86400000] by (simp add: ex_quota_count)
  have four: "card (storedToday ''h'' 86400000 ?s4) < 5"
    using circlesCreatedSince_card [OF d4, of "''h''" 86400000] by (simp add: ex_quota_count)
  have stored: "length (circles ?s4) = 5"
    by (simp add: ex_quota_def ex_created_def)
  have creds: "\<not> falsy (LIVEKIT_API_KEY ex_env)" "\<not> falsy (LIVEKIT_API_SECRET ex_env)"
    by (simp_all add: ex_env_def falsy_def)
  have today: "(86400000 :: int) \<le> 95000000" by simp
  have old: "c_createdAt ?old < 86400000" by simp
  have fresh: "''z'' \<notin> fst ` set (circles ?s4)"
    by (simp add: ex_quota_def ex_created_def)
  have del: "fst (deleteCircle ''a'' ''h'' ex_five) = Inr (''a'', True)" by code_simp
  note th5 = createCircle_daily_limit [OF h d5, of 86400000 ex_env 95000000 "''new''" ex_dto]
  note th4 = createCircle_daily_limit [OF h d4, of 86400000 ex_env 95000000 "''new''" ex_dto
      ?old "''z''"]
  note thd = createCircle_daily_limit [OF h dd, of 86400000 ex_env 95000000 "''new''" ex_dto
      ?old "''a''"]
  have a: "createCircle ex_env 95000000 86400000 ''new'' ex_dto ''h'' ?s5
       = (Inl (BadRequestException
                 ''Daily limit reached: You can only create 5 circles per day.''), ?s5)"
    using mp [OF conjunct1 [OF th5] five] .
  have b: "\<exists>tk c. fst (createCircle ex_env 95000000 86400000 ''new'' ex_dto ''h'' ?s4)
                 = Inr (''new'', tk, c)"
    using conjunct1 [OF conjunct2 [OF conjunct2 [OF th4]]] four creds n by blast
  have c: "storedToday ''h'' 86400000
         (snd (createCircle ex_env 95000000 86400000 ''new'' ex_dto ''h'' ?s4))
       = insert ''new'' (storedToday ''h'' 86400000 ?s4)"
    using conjunct1 [OF conjunct2 [OF conjunct2 [OF conjunct2 [OF th4]]]] four today by blast
  have d: "storedToday ''h'' 86400000
         (?s4\<lparr>circles := AList.update ''z'' ?old (circles ?s4)\<rparr>)
       = storedToday ''h'' 86400000 ?s4"
    using conjunct1 [OF conjunct2 [OF conjunct2 [OF conjunct2 [OF conjunct2 [OF th4]]]]]
      old fresh by blast
  have g: "storedToday ''h'' 86400000 (snd (deleteCircle ''a'' ''h'' ex_five))
       = storedToday ''h'' 86400000 ex_five - {''a''}"
    using mp [OF conjunct2 [OF conjunct2 [OF conjunct2 [OF conjunct2 [OF conjunct2 [OF thd]]]]]
      del] .
  show ?thesis
    using h d5 d4 dd five four stored creds n today old fresh del a b c d g
    by (intro conjI)
qed

text \<open>
  Counted by creations instead of stored documents, the claim fails. The requester \<open>h\<close>
  creates the five circles \<open>a\<close> to \<open>e\<close> on the day that starts at 86400000, and a
  sixth creation is refused; after \<open>h\<close> hard-deletes the scheduled circle \<open>a\<close>, a
  creation on the same day succeeds, although \<open>h\<close> has created five circles that day.
\<close>

theorem daily_limit_freed_by_delete:
  "map fst (circles ex_five) = [''a'', ''b'', ''c'', ''d'', ''e'']
   \<and> map (\<lambda>kc. c_hostUid (snd kc)) (circles ex_five) = [''h'', ''h'', ''h'', ''h'', ''h'']
   \<and> map (\<lambda>kc. c_createdAt (snd kc)) (circles ex_five)
       = [90000001, 90000002, 90000003, 90000004, 90000005]
   \<and> createCircle ex_env 90000006 86400000 ''f'' ex_later ''h'' ex_five
       = (Inl (BadRequestException
                 ''Daily limit reached: You can only create 5 circles per day.''), ex_five)
   \<and> fst (deleteCircle ''a'' ''h'' ex_five) = Inr (''a'', True)
   \<and> \<not> isl (fst (createCircle ex_env 90000007 86400000 ''f'' ex_later ''h''
                   (snd (deleteCircle ''a'' ''h'' ex_five))))
   \<and> map fst (circles (snd (createCircle ex_env 90000007 86400000 ''f'' ex_later ''h''
                               (snd (deleteCircle ''a'' ''h'' ex_five)))))
       = [''b'', ''c'', ''d'', ''e'', ''f'']"
  by code_simp

text \<open>
  C9. \<open>deleteCircle\<close> called by the host fails, leaving the store as it was, with the
  error "Only scheduled circles can be deleted" whenever the circle's status is not
  \<open>scheduled\<close>. For a scheduled circle it succeeds and removes exactly the circle
  record, the member records of the circle and the hand-raise records of the circle:
  afterwards none of them is stored, and every other circle, the member and hand-raise
  records of every other circle, the users and the armed timers are as before.
\<close>

theorem deleteCircle_scheduled_only:
  assumes "map_of (circles s) cid = Some c" and "c_hostUid c = uid" and "uid \<noteq> []"
  shows "(c_status c \<noteq> Scheduled \<longrightarrow>
            deleteCircle cid uid s = (Inl (Error ''Only scheduled circles can be deleted''), s))
       \<and> (c_status c = Scheduled \<longrightarrow>
            fst (deleteCircle cid uid s) = Inr (cid, True)
          \<and> map_of (circles (snd (deleteCircle cid uid s))) cid = None
          \<and> subDocs cid (members (snd (deleteCircle cid uid s))) = []
          \<and> subDocs cid (handRaises (snd (deleteCircle cid uid s))) = []
          \<and> (\<forall>u. map_of (members (snd (deleteCircle cid uid s))) (cid, u) = None)
          \<and> (\<forall>u. map_of (handRaises (snd (deleteCircle cid uid s))) (cid, u) = None)
          \<and> snd (deleteCircle cid uid s)
              = s\<lparr>circles := AList.delete cid (circles s),
                  members := filter (\<lambda>kv. fst (fst kv) \<noteq> cid) (members s),
                  handRaises := filter (\<lambda>kv. fst (fst kv) \<noteq> cid) (handRaises s)\<rparr>
          \<and> (\<forall>cid'. cid' \<noteq> cid \<longrightarrow>
                map_of (circles (snd (deleteCircle cid uid s))) cid' = map_of (circles s) cid')
          \<and> (\<forall>k. fst k \<noteq> cid \<longrightarrow>
                map_of (members (snd (deleteCircle cid uid s))) k = map_of (members s) k)
          \<and> (\<forall>k. fst k \<noteq> cid \<longrightarrow>
                map_of (handRaises (snd (deleteCircle cid uid s))) k = map_of (handRaises s) k)
          \<and> users (snd (deleteCircle cid uid s)) = users s
          \<and> timers (snd (deleteCircle cid uid s)) = timers s)"
proof (cases "c_status c = Scheduled")
  case False
  then show ?thesis using assms by (simp add: deleteCircle_def)
next
  case True
  note st = deleteCircle_state [OF assms True]
  have gone: "subDocs cid (filter (\<lambda>kv. fst (fst kv) \<noteq> cid) xs) = []"
    for xs :: "((string \<times> string) \<times> 'v) list"
    by (simp add: subDocs_def filter_empty_conv)
  show ?thesis
    using True
    by (simp add: st gone subDocs_empty_map_of delete_conv map_of_filter_other
        del: split_paired_All)
qed

theorem deleteCircle_scheduled_only_witness:
  "map_of (circles ex_two) ''c1'' = Some (ex_circle Scheduled)
   \<and> map_of (circles (ex_populated Live)) ''c1'' = Some (ex_circle Live)
   \<and> c_hostUid (ex_circle Scheduled) = ''h'' \<and> c_hostUid (ex_circle Live) = ''h''
   \<and> ''h'' \<noteq> []
   \<and> c_status (ex_circle Live) \<noteq> Scheduled
   \<and> c_status (ex_circle Scheduled) = Scheduled
   \<and> ''c2'' \<noteq> ''c1'' \<and> fst (''c2'', ''u'') \<noteq> ''c1''
   \<and> deleteCircle ''c1'' ''h'' (ex_populated Live)
       = (Inl (Error ''Only scheduled circles can be deleted''), ex_populated Live)
   \<and> deleteCircle ''c1'' ''h'' ex_two
       = (Inr (''c1'', True),
          \<lparr>circles = [(''c2'', (ex_circle Live)\<lparr>c_id := ''c2'', c_hostUid := ''g''\<rparr>)],
           members = [((''c2'', ''g''), ex_member Host (Some Active)),
                      ((''c2'', ''u''), ex_member Listener (Some Active))],
           handRaises = [((''c2'', ''u''), \<lparr>raisedAt = 1400\<rparr>)],
           users = ex_users,
           timers = [(5000, ''c2'', ''g'')]\<rparr>)
   \<and> map_of (circles (snd (deleteCircle ''c1'' ''h'' ex_two))) ''c1'' = None
   \<and> subDocs ''c1'' (members (snd (deleteCircle ''c1'' ''h'' ex_two))) = []
   \<and> subDocs ''c1'' (handRaises (snd (deleteCircle ''c1'' ''h'' ex_two))) = []
   \<and> map_of (circles (snd (deleteCircle ''c1'' ''h'' ex_two))) ''c2''
       = map_of (circles ex_two) ''c2''
   \<and> map_of (members (snd (deleteCircle ''c1'' ''h'' ex_two))) (''c2'', ''u'')
       = Some (ex_member Listener (Some Active))
   \<and> map_of (handRaises (snd (deleteCircle ''c1'' ''h'' ex_two))) (''c2'', ''u'')
       = Some \<lparr>raisedAt = 1400\<rparr>"
proof -
  have h1: "map_of (circles ex_two) ''c1'' = Some (ex_circle Scheduled)"
    by (simp add: ex_two_def)
  have g1: "map_of (circles (ex_populated Live)) ''c1'' = Some (ex_circle Live)"
    by (simp add: ex_populated_eval)
  have h2: "c_hostUid (ex_circle Scheduled) = ''h''" and g2: "c_hostUid (ex_circle Live) = ''h''"
    and g3: "c_status (ex_circle Live) \<noteq> Scheduled"
    and h3: "c_status (ex_circle Scheduled) = Scheduled"
    by (simp_all add: ex_circle_def)
  have h4: "''h'' \<noteq> []" by simp
  have ne: "''c2'' \<noteq> ''c1''" "fst (''c2'', ''u'') \<noteq> ''c1''" by simp_all
  note bad = deleteCircle_scheduled_only [OF g1 g2 h4]
  note ok = mp [OF conjunct2 [OF deleteCircle_scheduled_only [OF h1 h2 h4]] h3]
  have a: "deleteCircle ''c1'' ''h'' (ex_populated Live)
       = (Inl (Error ''Only scheduled circles can be deleted''), ex_populated Live)"
    using mp [OF conjunct1 [OF bad] g3] .
  have r: "fst (deleteCircle ''c1'' ''h'' ex_two) = Inr (''c1'', True)"
    using conjunct1 [OF ok] .
  have s: "snd (deleteCircle ''c1'' ''h'' ex_two)
              = ex_two\<lparr>circles := AList.delete ''c1'' (circles ex_two),
                  members := filter (\<lambda>kv. fst (fst kv) \<noteq> ''c1'') (members ex_two),
                  handRaises := filter (\<lambda>kv. fst (fst kv) \<noteq> ''c1'') (handRaises ex_two)\<rparr>"
    using conjunct1 [OF conjunct2 [OF conjunct2 [OF conjunct2 [OF conjunct2 [OF conjunct2
      [OF conjunct2 [OF ok]]]]]]] .
  have s': "snd (deleteCircle ''c1'' ''h'' ex_two)
       = \<lparr>circles = [(''c2'', (ex_circle Live)\<lparr>c_id := ''c2'', c_hostUid := ''g''\<rparr>)],
           members = [((''c2'', ''g''), ex_member Host (Some Active)),
                      ((''c2'', ''u''), ex_member Listener (Some Active))],
           handRaises = [((''c2'', ''u''), \<lparr>raisedAt = 1400\<rparr>)],
           users = ex_users,
           timers = [(5000, ''c2'', ''g'')]\<rparr>"
    unfolding s by (simp add: ex_two_def)
  have b: "deleteCircle ''c1'' ''h'' ex_two
       = (Inr (''c1'', True),
          \<lparr>circles = [(''c2'', (ex_circle Live)\<lparr>c_id := ''c2'', c_hostUid := ''g''\<rparr>)],
           members = [((''c2'', ''g''), ex_member Host (Some Active)),
                      ((''c2'', ''u''), ex_member Listener (Some Active))],
           handRaises = [((''c2'', ''u''), \<lparr>raisedAt = 1400\<rparr>)],
           users = ex_users,
           timers = [(5000, ''c2'', ''g'')]\<rparr>)"
    using r s' by (simp add: prod_eq_iff)
  have c2: "map_of (circles ex_two) ''c2''
       = Some ((ex_circle Live)\<lparr>c_id := ''c2'', c_hostUid := ''g''\<rparr>)"
    by (simp add: ex_two_def)
  show ?thesis
    unfolding b snd_conv
    using h1 g1 h2 g2 g3 h3 a c2 by (simp add: subDocs_def)
qed

text \<open>
  C10. When the host joins their own \<open>live\<close> circle and has no member record, the
  host-specific branch (which needs status \<open>scheduled\<close>) is not taken: with the requested
  role absent or \<open>listener\<close>, the host is stored as a regular member with role
  \<open>listener\<close>, muted and active, and the answer is a listener token (no publish and no
  room-admin grant), not a host token.
\<close>

theorem joinCircle_host_live_no_record:
  assumes "map_of (circles s) cid = Some c" and "c_status c = Live"
    and "c_hostUid c = uid" and "uid \<noteq> []" and "map_of (members s) (cid, uid) = None"
    and "jr = None \<or> jr = Some Listener"
  shows "(\<exists>m. map_of (members (snd (joinCircle e now cid uid jr s))) (cid, uid) = Some m
            \<and> m_role m = Listener \<and> m_isMuted m \<and> m_status m = Some Active)
       \<and> fst (joinCircle e now cid uid jr s)
            = withRole Listener (mintToken e uid cid Listener (getFullName s uid))
       \<and> (\<not> falsy (LIVEKIT_API_KEY e) \<and> \<not> falsy (LIVEKIT_API_SECRET e) \<and> cid \<noteq> [] \<longrightarrow>
            (\<exists>tk. fst (joinCircle e now cid uid jr s) = Inr (tk, Listener)
                \<and> identity tk = uid \<and> \<not> canPublish tk \<and> \<not> roomAdmin tk \<and> \<not> roomCreate tk))"
  using assms
  by (auto simp add: joinCircle_def Let_def incrementParticipantCountField_Some
        update_Some_unfold getFullName_def mintToken_def withRole_def)

theorem joinCircle_host_live_no_record_witness:
  "map_of (circles (ex_state Live [])) ''c1'' = Some (ex_circle Live)
   \<and> c_status (ex_circle Live) = Live
   \<and> c_hostUid (ex_circle Live) = ''h'' \<and> ''h'' \<noteq> []
   \<and> map_of (members (ex_state Live [])) (''c1'', ''h'') = None
   \<and> ((None :: role option) = None \<or> None = Some Listener)
   \<and> \<not> falsy (LIVEKIT_API_KEY ex_env) \<and> \<not> falsy (LIVEKIT_API_SECRET ex_env) \<and> ''c1'' \<noteq> []
   \<and> (\<exists>m. map_of (members (snd (joinCircle ex_env 2000 ''c1'' ''h'' None (ex_state Live []))))
              (''c1'', ''h'') = Some m
          \<and> m_role m = Listener \<and> m_isMuted m \<and> m_status m = Some Active)
   \<and> (\<exists>tk. fst (joinCircle ex_env 2000 ''c1'' ''h'' None (ex_state Live [])) = Inr (tk, Listener)
          \<and> \<not> canPublish tk \<and> \<not> roomAdmin tk)"
proof -
  have h1: "map_of (circles (ex_state Live [])) ''c1'' = Some (ex_circle Live)"
    and h5: "map_of (members (ex_state Live [])) (''c1'', ''h'') = None"
    by (simp_all add: ex_state_def)
  have h2: "c_status (ex_circle Live) = Live"
    and h3: "c_hostUid (ex_circle Live) = ''h''"
    by (simp_all add: ex_circle_def)
  have h4: "''h'' \<noteq> []" by simp
  have h6: "(None :: role option) = None \<or> None = Some Listener" by simp
  have creds: "\<not> falsy (LIVEKIT_API_KEY ex_env)" "\<not> falsy (LIVEKIT_API_SECRET ex_env)"
    by (simp_all add: ex_env_def falsy_def)
  note th = joinCircle_host_live_no_record [OF h1 h2 h3 h4 h5 h6, of ex_env 2000]
  have a: "\<exists>m. map_of (members (snd (joinCircle ex_env 2000 ''c1'' ''h'' None (ex_state Live []))))
              (''c1'', ''h'') = Some m
          \<and> m_role m = Listener \<and> m_isMuted m \<and> m_status m = Some Active"
    using conjunct1 [OF th] .
  have b: "\<exists>tk. fst (joinCircle ex_env 2000 ''c1'' ''h'' None (ex_state Live [])) = Inr (tk, Listener)
          \<and> \<not> canPublish tk \<and> \<not> roomAdmin tk"
    using conjunct2 [OF conjunct2 [OF th]] creds by auto
  show ?thesis
    using h1 h2 h3 h4 h5 creds a b by simp
qed

end
